theory Spec2Isabelle
  imports Main "HOL-Library.Char_ord" "HOL-Library.List_Lexorder" "HOL-Library.Log_Nat"
begin

text \<open>
  A model of \<^verbatim>\<open>robotfashion/data/robotfashion.py\<close>: the category tables, the reading of
  annotation files, and the dataset accessor \<^verbatim>\<open>RobotFashion\<close>. A Python exception is a value
  of the type \<open>error\<close>, and a function that can raise returns \<open>error + 'a\<close>, with \<open>Inl\<close>
  for the exception. The file system is a record that the functions read.
\<close>

section \<open>The category enumeration and its two tables\<close>

text \<open>
  \<^verbatim>\<open>class DF2(Enum)\<close>: thirteen garment categories, each with an integer value.
\<close>

datatype DF2 =
    short_sleeve_top
  | long_sleeve_top
  | short_sleeve_outwear
  | long_sleeve_outwear
  | vest
  | sling
  | shorts
  | trousers
  | skirt
  | short_sleeve_dress
  | long_sleeve_dress
  | vest_dress
  | sling_dress

fun DF2_value :: "DF2 \<Rightarrow> int" where
  "DF2_value short_sleeve_top = 1"
| "DF2_value long_sleeve_top = 2"
| "DF2_value short_sleeve_outwear = 3"
| "DF2_value long_sleeve_outwear = 4"
| "DF2_value vest = 5"
| "DF2_value sling = 6"
| "DF2_value shorts = 7"
| "DF2_value trousers = 8"
| "DF2_value skirt = 9"
| "DF2_value short_sleeve_dress = 10"
| "DF2_value long_sleeve_dress = 11"
| "DF2_value vest_dress = 12"
| "DF2_value sling_dress = 13"

text \<open>
  The two dictionary literals, entry by entry and in the order of the source. A dictionary
  lookup is \<open>map_of\<close> on the entries: \<open>None\<close> is Python's \<^verbatim>\<open>KeyError\<close>.
\<close>

definition df2_enum_to_name_items :: "(DF2 \<times> string) list" where
  "df2_enum_to_name_items =
     [(short_sleeve_top, ''short_sleeve_top''),
      (long_sleeve_top, ''long_sleeve_top''),
      (short_sleeve_outwear, ''short_sleeve_outwear''),
      (long_sleeve_outwear, ''long_sleeve_outwear''),
      (vest, ''vest''),
      (sling, ''sling''),
      (shorts, ''shorts''),
      (trousers, ''trousers''),
      (skirt, ''skirt''),
      (short_sleeve_dress, ''short_sleeve_dress''),
      (long_sleeve_dress, ''long_sleeve_dress''),
      (vest_dress, ''vest_dress''),
      (sling_dress, ''sling_dress'')]"

definition df2_enum_to_name :: "DF2 \<rightharpoonup> string" where
  "df2_enum_to_name = map_of df2_enum_to_name_items"

definition name_to_df2_enum_items :: "(string \<times> DF2) list" where
  "name_to_df2_enum_items =
     [(''short_sleeve_top'', short_sleeve_top),
      (''long_sleeve_top'', long_sleeve_top),
      (''short_sleeve_outwear'', short_sleeve_outwear),
      (''long_sleeve_outwear'', long_sleeve_outwear),
      (''vest'', vest),
      (''sling'', sling),
      (''shorts'', shorts),
      (''trousers'', trousers),
      (''skirt'', skirt),
      (''short_sleeve_dress'', short_sleeve_dress),
      (''long_sleeve_dres'', long_sleeve_dress),
      (''vest_dress'', vest_dress),
      (''sling_dress'', sling_dress)]"

definition name_to_df2_enum :: "string \<rightharpoonup> DF2" where
  "name_to_df2_enum = map_of name_to_df2_enum_items"

text \<open>
  The round trip of the two tables: the name of a category, looked up in the reverse table.
\<close>

definition name_round_trip :: "DF2 \<Rightarrow> DF2 option" where
  "name_round_trip c =
     (case df2_enum_to_name c of None \<Rightarrow> None | Some nm \<Rightarrow> name_to_df2_enum nm)"

section \<open>Paths and the declared folders\<close>

text \<open>\<^verbatim>\<open>os.path.join\<close> of two components, as \<^verbatim>\<open>posixpath\<close> computes it.\<close>

definition os_path_join :: "string \<Rightarrow> string \<Rightarrow> string" where
  "os_path_join a b =
     (if b \<noteq> [] \<and> hd b = CHR ''/'' then b
      else if a = [] \<or> last a = CHR ''/'' then a @ b
      else a @ ''/'' @ b)"

definition get_dataset_name :: string where
  "get_dataset_name = ''robotfashion''"

definition get_data_folder_name :: string where
  "get_data_folder_name = get_dataset_name @ ''_data_folder''"

definition get_root_data_folder :: "string \<Rightarrow> string" where
  "get_root_data_folder wp = os_path_join wp get_data_folder_name"

text \<open>\<^verbatim>\<open>get_folders\<close>: folder name and the expected digest of its entry names.\<close>

definition get_folders :: "(string \<times> string) list" where
  "get_folders =
     [(''train'', ''369ba5f28b246d2903b8f686b18d4b89b668fa484c9baef55c1c8bc5b6f2a45e''),
      (''val'', ''369ba5f28b246d2903b8f686b18d4b89b668fa484c9baef55c1c8bc5b6f2a45e''),
      (''test'', ''369ba5f28b246d2903b8f686b18d4b89b668fa484c9baef55c1c8bc5b6f2a45e'')]"

text \<open>The directories that \<^verbatim>\<open>load_train_data\<close> and \<^verbatim>\<open>load_val_data\<close> hand to \<^verbatim>\<open>load_data\<close>.\<close>

definition train_folder_name :: string where
  "train_folder_name = ''train''"

definition val_folder_name :: string where
  "val_folder_name = ''validation''"

definition train_data_dir :: "string \<Rightarrow> string" where
  "train_data_dir wp = os_path_join (get_root_data_folder wp) train_folder_name"

definition val_data_dir :: "string \<Rightarrow> string" where
  "val_data_dir wp = os_path_join (get_root_data_folder wp) val_folder_name"

section \<open>Errors\<close>

text \<open>
  The exceptions the code can raise, as values. \<open>ValueError\<close>, \<open>NotImplementedError\<close> and
  \<open>Exception\<close> carry the message of the source (without the values an f-string formats
  into it); \<open>KeyError\<close> carries the key that was looked up.
\<close>

datatype error =
    ValueError string
  | KeyError "string option"
  | IndexError
  | TypeError
  | OverflowError
  | OSError
  | ParseError
  | NotImplementedError string
  | Exception string

section \<open>Annotation documents\<close>

text \<open>
  An element of an \<^verbatim>\<open>xml.etree.ElementTree\<close> document: its tag, its text (\<^verbatim>\<open>None\<close> for an
  element without text) and its child elements in document order.
\<close>

datatype element = Element (tag: string) (elem_text: "string option") (children: "element list")

subsection \<open>The builtin \<^verbatim>\<open>int\<close> on an element's text\<close>

text \<open>
  \<^verbatim>\<open>int(s)\<close> on a string: surrounding whitespace (tab, line feed, vertical tab, form
  feed, carriage return, space) is dropped, then an optional sign, then decimal digits,
  where single underscores may stand between digits. \<^verbatim>\<open>int(None)\<close> is a \<^verbatim>\<open>TypeError\<close>.
  The texts are ASCII: a string is a list of bytes here, and the digits and spaces beyond
  ASCII that \<^verbatim>\<open>int\<close> also reads are outside this model.
\<close>

definition is_py_space :: "char \<Rightarrow> bool" where
  "is_py_space c =
     (c \<in> set [CHR 0x09, CHR 0x0A, CHR 0x0B, CHR 0x0C, CHR 0x0D, CHR 0x20])"

definition py_strip :: "string \<Rightarrow> string" where
  "py_strip s = rev (dropWhile is_py_space (rev (dropWhile is_py_space s)))"

definition digit_of :: "char \<Rightarrow> int option" where
  "digit_of c =
     (if CHR ''0'' \<le> c \<and> c \<le> CHR ''9'' then Some (of_char c - of_char CHR ''0'') else None)"

fun parse_digits :: "int \<Rightarrow> string \<Rightarrow> int option" where
  "parse_digits acc [] = Some acc"
| "parse_digits acc (c # cs) =
     (if c = CHR ''_'' then
        (case cs of
           [] \<Rightarrow> None
         | d # ds \<Rightarrow>
             (case digit_of d of
                None \<Rightarrow> None
              | Some v \<Rightarrow> parse_digits (10 * acc + v) ds))
      else
        (case digit_of c of
           None \<Rightarrow> None
         | Some v \<Rightarrow> parse_digits (10 * acc + v) cs))"

definition parse_unsigned :: "string \<Rightarrow> int option" where
  "parse_unsigned s =
     (case s of
        [] \<Rightarrow> None
      | c # cs \<Rightarrow> (case digit_of c of None \<Rightarrow> None | Some v \<Rightarrow> parse_digits v cs))"

definition invalid_literal :: error where
  "invalid_literal = ValueError ''invalid literal for int() with base 10''"

definition py_int_of_str :: "string \<Rightarrow> error + int" where
  "py_int_of_str s =
     (case py_strip s of
        [] \<Rightarrow> Inl invalid_literal
      | c # cs \<Rightarrow>
          if c = CHR ''-'' then
            (case parse_unsigned cs of None \<Rightarrow> Inl invalid_literal | Some n \<Rightarrow> Inr (- n))
          else if c = CHR ''+'' then
            (case parse_unsigned cs of None \<Rightarrow> Inl invalid_literal | Some n \<Rightarrow> Inr n)
          else
            (case parse_unsigned (c # cs) of
               None \<Rightarrow> Inl invalid_literal
             | Some n \<Rightarrow> Inr n))"

definition py_int :: "string option \<Rightarrow> error + int" where
  "py_int txt = (case txt of None \<Rightarrow> Inl TypeError | Some s \<Rightarrow> py_int_of_str s)"

subsection \<open>Reading the class and the bounding box\<close>

text \<open>
  \<^verbatim>\<open>get_class_from_xml\<close>, after the file is parsed: the loop over the root's children
  returns at the first \<^verbatim>\<open>object\<close> element, with the value of the category that the text of
  its first child names.
\<close>

fun get_class_from_root_children :: "element list \<Rightarrow> error + int" where
  "get_class_from_root_children [] = Inl (ValueError ''no name in xml'')"
| "get_class_from_root_children (child # rest) =
     (if tag child = ''object'' then
        (case children child of
           [] \<Rightarrow> Inl IndexError
         | clazz # _ \<Rightarrow>
             (case elem_text clazz of
                None \<Rightarrow> Inl (KeyError None)
              | Some nm \<Rightarrow>
                  (case name_to_df2_enum nm of
                     None \<Rightarrow> Inl (KeyError (Some nm))
                   | Some c \<Rightarrow> Inr (DF2_value c))))
      else get_class_from_root_children rest)"

definition get_class_from_root :: "element \<Rightarrow> error + int" where
  "get_class_from_root doc = get_class_from_root_children (children doc)"

text \<open>
  \<^verbatim>\<open>extract_bb\<close>: the four coordinates start at -1; every child of the \<^verbatim>\<open>bndbox\<close> element
  is visited in order and overwrites the coordinate its tag names.
\<close>

definition assign_if :: "bool \<Rightarrow> string option \<Rightarrow> int \<Rightarrow> error + int" where
  "assign_if b txt old = (if b then py_int txt else Inr old)"

fun extract_bb_loop :: "element list \<Rightarrow> int \<times> int \<times> int \<times> int \<Rightarrow> error + int \<times> int \<times> int \<times> int"
  where
  "extract_bb_loop [] st = Inr st"
| "extract_bb_loop (child # rest) (xmin, xmax, ymin, ymax) =
     (case assign_if (tag child = ''xmin'') (elem_text child) xmin of
        Inl e \<Rightarrow> Inl e
      | Inr xmin' \<Rightarrow>
     (case assign_if (tag child = ''xmax'') (elem_text child) xmax of
        Inl e \<Rightarrow> Inl e
      | Inr xmax' \<Rightarrow>
     (case assign_if (tag child = ''ymin'') (elem_text child) ymin of
        Inl e \<Rightarrow> Inl e
      | Inr ymin' \<Rightarrow>
     (case assign_if (tag child = ''ymax'') (elem_text child) ymax of
        Inl e \<Rightarrow> Inl e
      | Inr ymax' \<Rightarrow> extract_bb_loop rest (xmin', xmax', ymin', ymax')))))"

definition extract_bb :: "element \<Rightarrow> error + int list" where
  "extract_bb xml_obj =
     (case extract_bb_loop (children xml_obj) (-1, -1, -1, -1) of
        Inl e \<Rightarrow> Inl e
      | Inr (xmin, xmax, ymin, ymax) \<Rightarrow>
          if xmin < 0 \<or> xmax < 0 \<or> ymin < 0 \<or> ymax < 0
          then Inl (ValueError ''no xmin,xmax,ymin,ymax in xml'')
          else Inr [xmin, xmax, ymin, ymax])"

text \<open>
  \<^verbatim>\<open>get_bbox_from_xml\<close>, after the file is parsed: for each \<^verbatim>\<open>object\<close> child of the root,
  in order, the first \<^verbatim>\<open>bndbox\<close> child of it is handed to \<^verbatim>\<open>extract_bb\<close>; an \<^verbatim>\<open>object\<close>
  without a \<^verbatim>\<open>bndbox\<close> child lets the outer loop go on.
\<close>

fun get_bbox_from_root_children :: "element list \<Rightarrow> error + int list" where
  "get_bbox_from_root_children [] = Inl (ValueError ''no bounding box in xml'')"
| "get_bbox_from_root_children (child # rest) =
     (if tag child = ''object'' then
        (case find (\<lambda>grandchild. tag grandchild = ''bndbox'') (children child) of
           Some grandchild \<Rightarrow> extract_bb grandchild
         | None \<Rightarrow> get_bbox_from_root_children rest)
      else get_bbox_from_root_children rest)"

definition get_bbox_from_root :: "element \<Rightarrow> error + int list" where
  "get_bbox_from_root doc = get_bbox_from_root_children (children doc)"

section \<open>Floating-point values\<close>

text \<open>
  The numbers that numpy and torch store. A binary floating-point value is a rational
  number or one of the three special values. Rounding goes to the nearest value with \<open>p\<close>
  significant bits, ties to the even significand, with least exponent \<open>emin\<close> of the last
  bit; a result of magnitude \<open>2 ^ emax\<close> or more is infinite. A double has \<open>p = 53\<close>,
  \<open>emin = -1074\<close>, \<open>emax = 1024\<close>; a single (\<^verbatim>\<open>torch.float32\<close>) has \<open>p = 24\<close>,
  \<open>emin = -149\<close>, \<open>emax = 128\<close>.
\<close>

datatype fp = Finite rat | PosInf | NegInf | NaN

definition ilog2 :: "rat \<Rightarrow> int" where
  "ilog2 x =
     (let (a, b) = quotient_of x;
          k = bitlen a - bitlen b
      in if 2 powi k \<le> x then k else k - 1)"

definition round_half_even :: "rat \<Rightarrow> int" where
  "round_half_even x =
     (let f = \<lfloor>x\<rfloor>; d = x - of_int f
      in if d < 1 / 2 then f
         else if 1 / 2 < d then f + 1
         else if even f then f else f + 1)"

definition fp_round :: "nat \<Rightarrow> int \<Rightarrow> int \<Rightarrow> rat \<Rightarrow> fp" where
  "fp_round p emin emax x =
     (if x = 0 then Finite 0
      else
        let a = \<bar>x\<bar>;
            e = max (ilog2 a - (int p - 1)) emin;
            r = of_int (round_half_even (a / 2 powi e)) * 2 powi e
        in if 2 powi emax \<le> r then (if 0 < x then PosInf else NegInf)
           else Finite (if 0 < x then r else - r))"

definition round_double :: "rat \<Rightarrow> fp" where
  "round_double = fp_round 53 (- 1074) 1024"

definition round_single :: "rat \<Rightarrow> fp" where
  "round_single = fp_round 24 (- 149) 128"

text \<open>
  A Python integer stored into a \<^verbatim>\<open>float64\<close> array: the nearest double, or
  \<^verbatim>\<open>OverflowError\<close> when the integer is too large for a double.
\<close>

definition float_of_int :: "int \<Rightarrow> error + rat" where
  "float_of_int v =
     (case round_double (of_int v) of Finite d \<Rightarrow> Inr d | _ \<Rightarrow> Inl OverflowError)"

text \<open>\<^verbatim>\<open>.float()\<close> on a tensor of doubles: each element rounded to single precision.\<close>

definition torch_float :: "rat \<Rightarrow> fp" where
  "torch_float d = round_single d"

text \<open>
  \<^verbatim>\<open>.long()\<close> on a tensor of doubles: each element truncated towards zero. (The only
  values converted here are category values.)
\<close>

definition trunc_toward_zero :: "rat \<Rightarrow> int" where
  "trunc_toward_zero q = (if 0 \<le> q then \<lfloor>q\<rfloor> else \<lceil>q\<rceil>)"

definition torch_long :: "rat \<Rightarrow> int" where
  "torch_long d = trunc_toward_zero d"

text \<open>The product of two doubles.\<close>

fun fp_mul :: "fp \<Rightarrow> fp \<Rightarrow> fp" where
  "fp_mul (Finite a) (Finite b) = round_double (a * b)"
| "fp_mul NaN _ = NaN"
| "fp_mul _ NaN = NaN"
| "fp_mul (Finite a) PosInf = (if a = 0 then NaN else if 0 < a then PosInf else NegInf)"
| "fp_mul (Finite a) NegInf = (if a = 0 then NaN else if 0 < a then NegInf else PosInf)"
| "fp_mul PosInf (Finite b) = (if b = 0 then NaN else if 0 < b then PosInf else NegInf)"
| "fp_mul NegInf (Finite b) = (if b = 0 then NaN else if 0 < b then NegInf else PosInf)"
| "fp_mul PosInf PosInf = PosInf"
| "fp_mul PosInf NegInf = NegInf"
| "fp_mul NegInf PosInf = NegInf"
| "fp_mul NegInf NegInf = PosInf"

section \<open>Python numbers\<close>

text \<open>
  \<^verbatim>\<open>subset_ratio\<close> is an \<^verbatim>\<open>int\<close> (the default \<^verbatim>\<open>1\<close>) or a \<^verbatim>\<open>float\<close>.
\<close>

datatype number = PyInt int | PyFloat fp

fun num_le_zero :: "number \<Rightarrow> bool" where
  "num_le_zero (PyInt k) = (k \<le> 0)"
| "num_le_zero (PyFloat (Finite q)) = (q \<le> 0)"
| "num_le_zero (PyFloat PosInf) = False"
| "num_le_zero (PyFloat NegInf) = True"
| "num_le_zero (PyFloat NaN) = False"

fun num_gt_one :: "number \<Rightarrow> bool" where
  "num_gt_one (PyInt k) = (1 < k)"
| "num_gt_one (PyFloat (Finite q)) = (1 < q)"
| "num_gt_one (PyFloat PosInf) = True"
| "num_gt_one (PyFloat NegInf) = False"
| "num_gt_one (PyFloat NaN) = False"

text \<open>\<^verbatim>\<open>x * n\<close> for a number \<open>x\<close> and an integer \<open>n\<close>: the integer is converted for a float.\<close>

fun num_mul_int :: "number \<Rightarrow> int \<Rightarrow> error + number" where
  "num_mul_int (PyInt k) n = Inr (PyInt (k * n))"
| "num_mul_int (PyFloat x) n =
     (case float_of_int n of
        Inl e \<Rightarrow> Inl e
      | Inr d \<Rightarrow> Inr (PyFloat (fp_mul x (Finite d))))"

text \<open>\<^verbatim>\<open>int(x)\<close> for a number.\<close>

fun int_of_number :: "number \<Rightarrow> error + int" where
  "int_of_number (PyInt k) = Inr k"
| "int_of_number (PyFloat (Finite q)) = Inr (trunc_toward_zero q)"
| "int_of_number (PyFloat PosInf) = Inl OverflowError"
| "int_of_number (PyFloat NegInf) = Inl OverflowError"
| "int_of_number (PyFloat NaN) = Inl (ValueError ''cannot convert float NaN to integer'')"

section \<open>The file system\<close>

text \<open>
  What the code reads of the file system: directory listings (\<^verbatim>\<open>os.listdir\<close>, in the
  order the system gives them; \<open>None\<close> where the call raises), \<^verbatim>\<open>os.path.isfile\<close>, the
  annotation files (as the document \<^verbatim>\<open>ET.parse\<close> produces, or not XML) and the images
  (what \<^verbatim>\<open>Image.open\<close> returns).
\<close>

datatype xml_file = XmlDoc element | NotXml

record 'img filesystem =
  listdir :: "string \<Rightarrow> string list option"
  isfile :: "string \<Rightarrow> bool"
  xml_files :: "string \<Rightarrow> xml_file option"
  image_files :: "string \<Rightarrow> 'img option"

definition ET_parse :: "'img filesystem \<Rightarrow> string \<Rightarrow> error + element" where
  "ET_parse fs path =
     (case xml_files fs path of
        None \<Rightarrow> Inl OSError
      | Some NotXml \<Rightarrow> Inl ParseError
      | Some (XmlDoc doc) \<Rightarrow> Inr doc)"

definition get_class_from_xml :: "'img filesystem \<Rightarrow> string \<Rightarrow> error + int" where
  "get_class_from_xml fs xml_path =
     (case ET_parse fs xml_path of Inl e \<Rightarrow> Inl e | Inr doc \<Rightarrow> get_class_from_root doc)"

definition get_bbox_from_xml :: "'img filesystem \<Rightarrow> string \<Rightarrow> error + int list" where
  "get_bbox_from_xml fs xml_path =
     (case ET_parse fs xml_path of Inl e \<Rightarrow> Inl e | Inr doc \<Rightarrow> get_bbox_from_root doc)"

section \<open>Labels\<close>

text \<open>
  \<^verbatim>\<open>load_label\<close>: a \<^verbatim>\<open>(1, 4)\<close> array of boxes and a \<^verbatim>\<open>(1,)\<close> array of labels, both of
  doubles, are filled from the annotation file; the result holds the boxes as a tensor of
  singles and the labels as a tensor of 64-bit integers.
\<close>

record label =
  boxes :: "fp list list"
  labels :: "int list"

fun traverse :: "('a \<Rightarrow> error + 'b) \<Rightarrow> 'a list \<Rightarrow> error + 'b list" where
  "traverse f [] = Inr []"
| "traverse f (x # xs) =
     (case f x of
        Inl e \<Rightarrow> Inl e
      | Inr y \<Rightarrow> (case traverse f xs of Inl e \<Rightarrow> Inl e | Inr ys \<Rightarrow> Inr (y # ys)))"

definition fill_label :: "error + int list \<Rightarrow> error + int \<Rightarrow> error + label" where
  "fill_label bbox clazz =
     (case bbox of
        Inl e \<Rightarrow> Inl e
      | Inr bb \<Rightarrow>
     (case traverse float_of_int bb of
        Inl e \<Rightarrow> Inl e
      | Inr row \<Rightarrow>
     (case clazz of
        Inl e \<Rightarrow> Inl e
      | Inr c \<Rightarrow>
     (case float_of_int c of
        Inl e \<Rightarrow> Inl e
      | Inr l \<Rightarrow> Inr \<lparr>boxes = [map torch_float row], labels = [torch_long l]\<rparr>))))"

definition load_label :: "'img filesystem \<Rightarrow> string \<Rightarrow> error + label" where
  "load_label fs label_path =
     fill_label (get_bbox_from_xml fs label_path) (get_class_from_xml fs label_path)"

text \<open>The same on a parsed document.\<close>

definition label_of_root :: "element \<Rightarrow> error + label" where
  "label_of_root doc = fill_label (get_bbox_from_root doc) (get_class_from_root doc)"

definition load_image :: "'img filesystem \<Rightarrow> string \<Rightarrow> error + 'img" where
  "load_image fs image_path =
     (case image_files fs image_path of None \<Rightarrow> Inl OSError | Some img \<Rightarrow> Inr img)"

section \<open>The dataset accessor\<close>

definition train_mode :: string where
  "train_mode = ''train''"

definition val_mode :: string where
  "val_mode = ''val''"

definition test_mode :: string where
  "test_mode = ''test''"

definition modes :: "string list" where
  "modes = [train_mode, val_mode, test_mode]"

text \<open>\<^verbatim>\<open>get_download_links\<close>: drive id, file name, digest and length of the archive.\<close>

definition get_download_links :: "(string \<times> string \<times> string \<times> int) list" where
  "get_download_links =
     [(''1ezwR5_7OHhqjMR2D9ZMZqpq8u8xQ2MoG'',
       ''robotfashion_dataset.zip'',
       ''5a66924dbe44eed9bc0cdf52a206470db2fd9421a5745ab17b18588952c14ba4'',
       1050691281)]"

text \<open>
  \<^verbatim>\<open>load_data\<close>: the sorted listing of a directory, restricted to regular files, each
  joined with the directory; first for \<^verbatim>\<open>images\<close>, then for \<^verbatim>\<open>annotations\<close>.
\<close>

definition list_files :: "'img filesystem \<Rightarrow> string \<Rightarrow> error + string list" where
  "list_files fs dir =
     (case listdir fs dir of
        None \<Rightarrow> Inl OSError
      | Some names \<Rightarrow>
          Inr (map (os_path_join dir)
                 (filter (\<lambda>f. isfile fs (os_path_join dir f)) (sort names))))"

definition load_data :: "'img filesystem \<Rightarrow> string \<Rightarrow> error + string list \<times> string list" where
  "load_data fs data_dir =
     (let image_dir = os_path_join data_dir ''images'';
          annos_dir = os_path_join data_dir ''annotations''
      in case list_files fs image_dir of
           Inl e \<Rightarrow> Inl e
         | Inr image_paths \<Rightarrow>
             (case list_files fs annos_dir of
                Inl e \<Rightarrow> Inl e
              | Inr label_paths \<Rightarrow>
                  if length image_paths \<noteq> length label_paths
                  then Inl (ValueError ''length of images and labels doesn't match'')
                  else Inr (image_paths, label_paths)))"

definition load_train_data :: "'img filesystem \<Rightarrow> string \<Rightarrow> error + string list \<times> string list"
  where
  "load_train_data fs wp = load_data fs (train_data_dir wp)"

definition load_val_data :: "'img filesystem \<Rightarrow> string \<Rightarrow> error + string list \<times> string list"
  where
  "load_val_data fs wp = load_data fs (val_data_dir wp)"

definition load_test_data :: "'img filesystem \<Rightarrow> string \<Rightarrow> error + string list \<times> string list"
  where
  "load_test_data fs wp = Inl (NotImplementedError ''labels of test data are not published'')"

text \<open>
  The fields of an accessor. \<open>dataset_root\<close> is the \<^verbatim>\<open>root\<close> that the base class stores
  (torchvision's expansion of a leading \<^verbatim>\<open>~\<close> in it is not modelled). An image is a value
  of a type of its own, and a transform is a function on images.
\<close>

record 'img RobotFashion =
  dataset_root :: string
  transform :: "('img \<Rightarrow> 'img) option"
  subset_ratio :: number
  mode :: string
  image_paths :: "string list"
  label_paths :: "string list"

text \<open>
  \<^verbatim>\<open>has_correct_folder_structure\<close> and \<^verbatim>\<open>maybe_download_and_unzip_data\<close> come from the
  package's \<^verbatim>\<open>util\<close> module. They are parameters of the constructor here: the first
  decides from the file system, the data folder, the declared folders and the dataset
  name; the second returns the file system after the download, or raises.
\<close>

type_synonym 'img folder_check =
  "'img filesystem \<Rightarrow> string \<Rightarrow> (string \<times> string) list \<Rightarrow> string \<Rightarrow> bool"

type_synonym 'img downloader =
  "'img filesystem \<Rightarrow> string \<Rightarrow> (string \<times> string \<times> string \<times> int) list
     \<Rightarrow> error + 'img filesystem"

text \<open>The first block of \<^verbatim>\<open>__init__\<close>: check the folders, download if allowed, check again.\<close>

definition ensure_dataset ::
  "'img folder_check \<Rightarrow> 'img downloader \<Rightarrow> 'img filesystem \<Rightarrow> string \<Rightarrow> bool
     \<Rightarrow> error + 'img filesystem" where
  "ensure_dataset has_correct_folder_structure maybe_download_and_unzip_data fs wp
       download_if_missing =
     (if \<not> has_correct_folder_structure fs (get_root_data_folder wp) get_folders
            get_dataset_name
      then
        if \<not> download_if_missing
        then Inl (ValueError (''cannot find (valid) '' @ get_dataset_name @ '' data.''
                    @ '' Set download_if_missing=True to download dataset''))
        else
          (case maybe_download_and_unzip_data fs (get_root_data_folder wp)
                  get_download_links of
             Inl e \<Rightarrow> Inl e
           | Inr fs' \<Rightarrow>
               if \<not> has_correct_folder_structure fs' (get_root_data_folder wp) get_folders
                      get_dataset_name
               then Inl (Exception ''Downloading and/or unzipping data failed'')
               else Inr fs')
      else Inr fs)"

definition bad_mode :: "string \<Rightarrow> error" where
  "bad_mode m = ValueError (''mode '' @ m @ '' should be one of ['train', 'val', 'test']'')"

definition bad_subset_ratio :: error where
  "bad_subset_ratio = ValueError ''subset ratio needs to be in (0, 1]''"

text \<open>
  \<^verbatim>\<open>__init__\<close>: the accessor, and the file system it was built on (changed by a download).
\<close>

definition RobotFashion_init ::
  "'img folder_check \<Rightarrow> 'img downloader \<Rightarrow> 'img filesystem \<Rightarrow> string \<Rightarrow> string \<Rightarrow> bool
     \<Rightarrow> number \<Rightarrow> ('img \<Rightarrow> 'img) option \<Rightarrow> error + 'img RobotFashion \<times> 'img filesystem" where
  "RobotFashion_init has_correct_folder_structure maybe_download_and_unzip_data fs
       working_path md download_if_missing ratio tf =
     (case ensure_dataset has_correct_folder_structure maybe_download_and_unzip_data fs
             working_path download_if_missing of
        Inl e \<Rightarrow> Inl e
      | Inr fs' \<Rightarrow>
          if md \<notin> set modes then Inl (bad_mode md)
          else if num_le_zero ratio \<or> num_gt_one ratio then Inl bad_subset_ratio
          else
            (case (if md = train_mode then load_train_data fs' working_path
                   else if md = val_mode then load_val_data fs' working_path
                   else load_test_data fs' working_path) of
               Inl e \<Rightarrow> Inl e
             | Inr (ips, lps) \<Rightarrow>
                 Inr (\<lparr>dataset_root = working_path, transform = tf, subset_ratio = ratio,
                       mode = md, image_paths = ips, label_paths = lps\<rparr>, fs')))"

text \<open>
  Indexing a Python list: a negative index counts from the end, an index outside the list
  is an \<^verbatim>\<open>IndexError\<close>.
\<close>

definition py_index :: "'a list \<Rightarrow> int \<Rightarrow> error + 'a" where
  "py_index xs i =
     (let n = int (length xs); j = (if i < 0 then i + n else i)
      in if j < 0 \<or> n \<le> j then Inl IndexError else Inr (xs ! nat j))"

text \<open>\<^verbatim>\<open>__getitem__\<close>: the image, then the label, then the transform on the image.\<close>

definition getitem ::
  "'img filesystem \<Rightarrow> 'img RobotFashion \<Rightarrow> int \<Rightarrow> error + 'img \<times> label" where
  "getitem fs self index =
     (case py_index (image_paths self) index of
        Inl e \<Rightarrow> Inl e
      | Inr image_path \<Rightarrow>
     (case load_image fs image_path of
        Inl e \<Rightarrow> Inl e
      | Inr img \<Rightarrow>
     (case py_index (label_paths self) index of
        Inl e \<Rightarrow> Inl e
      | Inr label_path \<Rightarrow>
     (case load_label fs label_path of
        Inl e \<Rightarrow> Inl e
      | Inr lab \<Rightarrow>
          Inr (case transform self of None \<Rightarrow> img | Some f \<Rightarrow> f img, lab)))))"

text \<open>\<^verbatim>\<open>__len__\<close>: \<^verbatim>\<open>int(self.subset_ratio * n)\<close> for the number \<open>n\<close> of image paths.\<close>

definition len :: "'img RobotFashion \<Rightarrow> error + int" where
  "len self =
     (let n = int (length (image_paths self))
      in case num_mul_int (subset_ratio self) n of
           Inl e \<Rightarrow> Inl e
         | Inr x \<Rightarrow> int_of_number x)"

section \<open>The structure of an annotation document\<close>

text \<open>
  The \<^verbatim>\<open>object\<close> children of the root, the first \<^verbatim>\<open>bndbox\<close> among the children of
  the objects in document order, the class name (the text of the first child of the first
  object), and the children of a \<^verbatim>\<open>bndbox\<close> that carry a coordinate's tag.
\<close>

definition objects :: "element \<Rightarrow> element list" where
  "objects doc = filter (\<lambda>c. tag c = ''object'') (children doc)"

definition first_bndbox :: "element \<Rightarrow> element option" where
  "first_bndbox doc =
     find (\<lambda>g. tag g = ''bndbox'') (concat (map children (objects doc)))"

definition class_name :: "element \<Rightarrow> string option" where
  "class_name doc =
     (case objects doc of
        [] \<Rightarrow> None
      | obj # _ \<Rightarrow> (case children obj of [] \<Rightarrow> None | clazz # _ \<Rightarrow> elem_text clazz))"

text \<open>
  The category that a name denotes: the forward table \<open>df2_enum_to_name\<close> read backwards.
  A class name is recognized when it is the name of a category. The code consults the
  reverse table instead; \<open>unknown_key\<close> is its failure.
\<close>

definition category_named :: "string \<Rightarrow> DF2 option" where
  "category_named nm = map_of (map (\<lambda>(c, n). (n, c)) df2_enum_to_name_items) nm"

definition unrecognized :: "string option \<Rightarrow> bool" where
  "unrecognized nm = (case nm of None \<Rightarrow> True | Some s \<Rightarrow> category_named s = None)"

definition unknown_key :: "string option \<Rightarrow> bool" where
  "unknown_key nm = (case nm of None \<Rightarrow> True | Some s \<Rightarrow> name_to_df2_enum s = None)"

definition coordinate_tags :: "string list" where
  "coordinate_tags = [''xmin'', ''xmax'', ''ymin'', ''ymax'']"

definition coordinate_children :: "string \<Rightarrow> element \<Rightarrow> element list" where
  "coordinate_children t bb = filter (\<lambda>c. tag c = t) (children bb)"

text \<open>
  The conditions under which parsing is said to fail: a coordinate is missing when no child
  has its tag, and negative when a child with its tag holds a negative integer.
\<close>

definition coordinate_missing :: "string \<Rightarrow> element \<Rightarrow> bool" where
  "coordinate_missing t bb = (coordinate_children t bb = [])"

definition is_negative :: "error + int \<Rightarrow> bool" where
  "is_negative r = (case r of Inl _ \<Rightarrow> False | Inr v \<Rightarrow> v < 0)"

definition coordinate_negative :: "string \<Rightarrow> element \<Rightarrow> bool" where
  "coordinate_negative t bb =
     list_ex (\<lambda>c. is_negative (py_int (elem_text c))) (coordinate_children t bb)"

text \<open>
  The specification's reading of a malformed file: no object, an unrecognized class name,
  no bounding box, or a coordinate missing or negative.
\<close>

definition claimed_malformed :: "element \<Rightarrow> bool" where
  "claimed_malformed doc =
     (objects doc = [] \<or> unrecognized (class_name doc) \<or>
      (case first_bndbox doc of
         None \<Rightarrow> True
       | Some bb \<Rightarrow>
           list_ex (\<lambda>t. coordinate_missing t bb \<or> coordinate_negative t bb) coordinate_tags))"

text \<open>
  What the code adds: a child with a coordinate's tag whose text \<^verbatim>\<open>int\<close> rejects raises,
  wherever it stands; and of several children with the same tag the last one gives the
  value.
\<close>

definition coordinate_unreadable :: "string \<Rightarrow> element \<Rightarrow> bool" where
  "coordinate_unreadable t bb =
     list_ex (\<lambda>c. isl (py_int (elem_text c))) (coordinate_children t bb)"

definition coordinate_last_negative :: "string \<Rightarrow> element \<Rightarrow> bool" where
  "coordinate_last_negative t bb =
     (case coordinate_children t bb of
        [] \<Rightarrow> False
      | c # cs \<Rightarrow> is_negative (py_int (elem_text (last (c # cs)))))"

definition malformed :: "element \<Rightarrow> bool" where
  "malformed doc =
     (objects doc = [] \<or> unrecognized (class_name doc) \<or>
      (case first_bndbox doc of
         None \<Rightarrow> True
       | Some bb \<Rightarrow>
           list_ex (\<lambda>t. coordinate_missing t bb \<or> coordinate_unreadable t bb \<or>
                         coordinate_last_negative t bb) coordinate_tags))"

definition parse_raises :: "element \<Rightarrow> bool" where
  "parse_raises doc = (isl (get_bbox_from_root doc) \<or> isl (get_class_from_root doc))"

text \<open>
  The value a coordinate has after the loop of \<^verbatim>\<open>extract_bb\<close>, and the children of a
  \<^verbatim>\<open>bndbox\<close> on which \<^verbatim>\<open>int\<close> does not raise.
\<close>

fun final_coord :: "string \<Rightarrow> int \<Rightarrow> element list \<Rightarrow> int" where
  "final_coord t old [] = old"
| "final_coord t old (c # cs) =
     final_coord t
       (if tag c = t then (case py_int (elem_text c) of Inl _ \<Rightarrow> old | Inr v \<Rightarrow> v) else old) cs"

definition readable :: "element \<Rightarrow> bool" where
  "readable c = (tag c \<in> set coordinate_tags \<longrightarrow> \<not> isl (py_int (elem_text c)))"

text \<open>
  The specification's well-formed annotation file: exactly one object, whose first child
  holds the name of a category, with exactly one \<^verbatim>\<open>bndbox\<close> child, which has exactly
  one child for each coordinate, each a non-negative integer. The result is the category
  and the box \<open>[xmin, xmax, ymin, ymax]\<close>.
\<close>

definition the_only :: "'a list \<Rightarrow> 'a option" where
  "the_only xs = (case xs of [] \<Rightarrow> None | x # rest \<Rightarrow> if rest = [] then Some x else None)"

definition coordinate_value :: "string \<Rightarrow> element \<Rightarrow> int option" where
  "coordinate_value t bb =
     (case the_only (coordinate_children t bb) of
        None \<Rightarrow> None
      | Some e \<Rightarrow> (case py_int (elem_text e) of Inl _ \<Rightarrow> None | Inr v \<Rightarrow> Some v))"

definition box_of_bndbox :: "element \<Rightarrow> int list option" where
  "box_of_bndbox bb =
     (case coordinate_value ''xmin'' bb of None \<Rightarrow> None | Some xmin \<Rightarrow>
     (case coordinate_value ''xmax'' bb of None \<Rightarrow> None | Some xmax \<Rightarrow>
     (case coordinate_value ''ymin'' bb of None \<Rightarrow> None | Some ymin \<Rightarrow>
     (case coordinate_value ''ymax'' bb of None \<Rightarrow> None | Some ymax \<Rightarrow>
        if 0 \<le> xmin \<and> 0 \<le> xmax \<and> 0 \<le> ymin \<and> 0 \<le> ymax
        then Some [xmin, xmax, ymin, ymax] else None))))"

definition well_formed_annotation :: "element \<Rightarrow> (DF2 \<times> int list) option" where
  "well_formed_annotation doc =
     (case the_only (objects doc) of None \<Rightarrow> None | Some obj \<Rightarrow>
     (case class_name doc of None \<Rightarrow> None | Some nm \<Rightarrow>
     (case category_named nm of None \<Rightarrow> None | Some c \<Rightarrow>
     (case the_only (filter (\<lambda>g. tag g = ''bndbox'') (children obj)) of
        None \<Rightarrow> None
      | Some bb \<Rightarrow>
     (case box_of_bndbox bb of None \<Rightarrow> None | Some box \<Rightarrow> Some (c, box))))))"

section \<open>Example data\<close>

text \<open>
  Annotation documents: the specification's scenario (shorts, box 10, 50, 20, 60), a
  second file, a file with a coordinate beyond the exact range of single precision, a file
  with a fractional coordinate, and a file with two objects of which only the second has a
  bounding box.
\<close>

definition shorts_doc :: element where
  "shorts_doc =
     Element ''annotation'' None
       [Element ''filename'' (Some ''a.jpg'') [],
        Element ''object'' None
          [Element ''name'' (Some ''shorts'') [],
           Element ''bndbox'' None
             [Element ''xmin'' (Some ''10'') [],
              Element ''xmax'' (Some ''50'') [],
              Element ''ymin'' (Some ''20'') [],
              Element ''ymax'' (Some ''60'') []]]]"

definition vest_doc :: element where
  "vest_doc =
     Element ''annotation'' None
       [Element ''object'' None
          [Element ''name'' (Some ''vest'') [],
           Element ''bndbox'' None
             [Element ''xmin'' (Some ''1'') [],
              Element ''xmax'' (Some ''2'') [],
              Element ''ymin'' (Some ''3'') [],
              Element ''ymax'' (Some ''4'') []]]]"

definition large_coordinate_doc :: element where
  "large_coordinate_doc =
     Element ''annotation'' None
       [Element ''object'' None
          [Element ''name'' (Some ''shorts'') [],
           Element ''bndbox'' None
             [Element ''xmin'' (Some ''10'') [],
              Element ''xmax'' (Some ''16777217'') [],
              Element ''ymin'' (Some ''20'') [],
              Element ''ymax'' (Some ''60'') []]]]"

definition fractional_coordinate_doc :: element where
  "fractional_coordinate_doc =
     Element ''annotation'' None
       [Element ''object'' None
          [Element ''name'' (Some ''shorts'') [],
           Element ''bndbox'' None
             [Element ''xmin'' (Some ''12.5'') [],
              Element ''xmax'' (Some ''50'') [],
              Element ''ymin'' (Some ''20'') [],
              Element ''ymax'' (Some ''60'') []]]]"

definition two_object_doc :: element where
  "two_object_doc =
     Element ''annotation'' None
       [Element ''object'' None
          [Element ''name'' (Some ''shorts'') []],
        Element ''object'' None
          [Element ''name'' (Some ''vest'') [],
           Element ''bndbox'' None
             [Element ''xmin'' (Some ''1'') [],
              Element ''xmax'' (Some ''2'') [],
              Element ''ymin'' (Some ''3'') [],
              Element ''ymax'' (Some ''4'') []]]]"

text \<open>
  A dataset under \<^verbatim>\<open>/data\<close> with two training examples and one validation example, a copy
  of it that lacks one training annotation, a copy whose second training image cannot be
  opened, and a dataset with three training examples,
  for an accessor whose subset ratio is the float \<^verbatim>\<open>1/3\<close> (printed
  \<^verbatim>\<open>0.3333333333333333\<close>), the double \<open>6004799503160661 / 2 ^ 54\<close>. The folder check
  accepts every dataset, and nothing can be downloaded.
\<close>

definition example_fs :: "nat filesystem" where
  "example_fs =
     \<lparr>listdir = (\<lambda>p.
        if p = ''/data/robotfashion_data_folder/train/images'' then Some [''b.jpg'', ''a.jpg'']
        else if p = ''/data/robotfashion_data_folder/train/annotations''
          then Some [''b.xml'', ''a.xml'']
        else if p = ''/data/robotfashion_data_folder/validation/images'' then Some [''v.jpg'']
        else if p = ''/data/robotfashion_data_folder/validation/annotations''
          then Some [''v.xml'']
        else None),
      isfile = (\<lambda>p. p \<in> set
        [''/data/robotfashion_data_folder/train/images/a.jpg'',
         ''/data/robotfashion_data_folder/train/images/b.jpg'',
         ''/data/robotfashion_data_folder/train/annotations/a.xml'',
         ''/data/robotfashion_data_folder/train/annotations/b.xml'',
         ''/data/robotfashion_data_folder/validation/images/v.jpg'',
         ''/data/robotfashion_data_folder/validation/annotations/v.xml'']),
      xml_files = (\<lambda>p.
        if p = ''/data/robotfashion_data_folder/train/annotations/a.xml''
          then Some (XmlDoc shorts_doc)
        else if p = ''/data/robotfashion_data_folder/train/annotations/b.xml''
          then Some (XmlDoc vest_doc)
        else if p = ''/data/robotfashion_data_folder/validation/annotations/v.xml''
          then Some (XmlDoc large_coordinate_doc)
        else None),
      image_files = (\<lambda>p.
        if p = ''/data/robotfashion_data_folder/train/images/a.jpg'' then Some 1
        else if p = ''/data/robotfashion_data_folder/train/images/b.jpg'' then Some 2
        else if p = ''/data/robotfashion_data_folder/validation/images/v.jpg'' then Some 3
        else None)\<rparr>"

definition accept_check :: "nat folder_check" where
  "accept_check fs folder folders name = True"

definition no_download :: "nat downloader" where
  "no_download fs folder links = Inl OSError"

definition train_accessor :: "number \<Rightarrow> nat RobotFashion" where
  "train_accessor ratio =
     \<lparr>dataset_root = ''/data'', transform = None, subset_ratio = ratio, mode = ''train'',
      image_paths = [''/data/robotfashion_data_folder/train/images/a.jpg'',
                     ''/data/robotfashion_data_folder/train/images/b.jpg''],
      label_paths = [''/data/robotfashion_data_folder/train/annotations/a.xml'',
                     ''/data/robotfashion_data_folder/train/annotations/b.xml'']\<rparr>"

definition val_accessor :: "nat RobotFashion" where
  "val_accessor =
     \<lparr>dataset_root = ''/data'', transform = None, subset_ratio = PyInt 1, mode = ''val'',
      image_paths = [''/data/robotfashion_data_folder/validation/images/v.jpg''],
      label_paths = [''/data/robotfashion_data_folder/validation/annotations/v.xml'']\<rparr>"

definition mismatch_fs :: "nat filesystem" where
  "mismatch_fs =
     example_fs\<lparr>listdir := (\<lambda>p.
        if p = ''/data/robotfashion_data_folder/train/annotations'' then Some [''a.xml'']
        else listdir example_fs p)\<rparr>"

definition unopened_fs :: "nat filesystem" where
  "unopened_fs =
     example_fs\<lparr>image_files := (\<lambda>p.
        if p = ''/data/robotfashion_data_folder/train/images/b.jpg'' then None
        else image_files example_fs p)\<rparr>"

definition three_fs :: "nat filesystem" where
  "three_fs =
     \<lparr>listdir = (\<lambda>p. Some [''n3'', ''n1'', ''n2'']),
      isfile = (\<lambda>p. True),
      xml_files = (\<lambda>p. None),
      image_files = (\<lambda>p. None)\<rparr>"

definition double_third :: rat where
  "double_third = 6004799503160661 / 18014398509481984"

definition three_accessor :: "nat RobotFashion" where
  "three_accessor =
     \<lparr>dataset_root = ''/data'', transform = None,
      subset_ratio = PyFloat (Finite double_third), mode = ''train'',
      image_paths =
        map (os_path_join ''/data/robotfashion_data_folder/train/images'')
          [''n1'', ''n2'', ''n3''],
      label_paths =
        map (os_path_join ''/data/robotfashion_data_folder/train/annotations'')
          [''n1'', ''n2'', ''n3'']\<rparr>"

section \<open>Properties of the category tables\<close>

lemma name_round_trip_cases:
  "name_round_trip c = (if c = long_sleeve_dress then None else Some c)"
  by (cases c)
     (simp_all add: name_round_trip_def df2_enum_to_name_def df2_enum_to_name_items_def
        name_to_df2_enum_def name_to_df2_enum_items_def)

lemma DF2_value_range: "1 \<le> DF2_value c \<and> DF2_value c \<le> 13"
  by (cases c) simp_all

text \<open>
  Claim C2 (the tables form a bidirectional lookup over all thirteen categories, with codes
  in 1..13). The codes are as claimed, but the round trip breaks at one category: the name
  of \<open>long_sleeve_dress\<close> is not a key of the reverse table, whose key for that category is
  spelled \<open>long_sleeve_dres\<close>. The lookup of the canonical name is a \<^verbatim>\<open>KeyError\<close>.
\<close>

theorem C2_round_trip_fails_at_long_sleeve_dress:
  "df2_enum_to_name long_sleeve_dress = Some ''long_sleeve_dress'' \<and>
   name_to_df2_enum ''long_sleeve_dress'' = None \<and>
   name_round_trip long_sleeve_dress = None \<and>
   name_to_df2_enum ''long_sleeve_dres'' = Some long_sleeve_dress"
  by (simp add: name_round_trip_def df2_enum_to_name_def df2_enum_to_name_items_def
        name_to_df2_enum_def name_to_df2_enum_items_def)

text \<open>
  Claim C3, as stated (the misspelled key of the reverse table is \<open>short_sleeve_dres\<close> and
  belongs to \<open>short_sleeve_dress\<close>), is false: the reverse table has no such key, and the
  entry of \<open>short_sleeve_dress\<close> is spelled correctly, so the two tables agree on it.
\<close>

theorem C3_short_sleeve_dress_is_not_misspelled:
  "name_to_df2_enum ''short_sleeve_dres'' = None \<and>
   name_to_df2_enum ''short_sleeve_dress'' = Some short_sleeve_dress \<and>
   name_round_trip short_sleeve_dress = Some short_sleeve_dress"
  by (simp add: name_round_trip_def df2_enum_to_name_def df2_enum_to_name_items_def
        name_to_df2_enum_def name_to_df2_enum_items_def)

text \<open>
  Claim C3, amended: the misspelled key of the reverse table is \<open>long_sleeve_dres\<close> (the
  final s is missing) and belongs to \<open>long_sleeve_dress\<close>; the forward and the reverse table
  disagree on the entry of \<open>long_sleeve_dress\<close> and on no other.
\<close>

theorem C3_misspelled_key_is_long_sleeve_dres:
  "name_to_df2_enum ''long_sleeve_dres'' = Some long_sleeve_dress \<and>
   df2_enum_to_name long_sleeve_dress = Some ''long_sleeve_dress'' \<and>
   (name_round_trip c = Some c) = (c \<noteq> long_sleeve_dress)"
  by (simp add: name_round_trip_cases df2_enum_to_name_def df2_enum_to_name_items_def
        name_to_df2_enum_def name_to_df2_enum_items_def)

section \<open>Properties of the declared folders\<close>

lemma os_path_join_relative:
  "b \<noteq> [] \<Longrightarrow> hd b \<noteq> CHR ''/'' \<Longrightarrow>
   os_path_join a b = (if a = [] \<or> last a = CHR ''/'' then a @ b else a @ ''/'' @ b)"
  by (simp add: os_path_join_def)

section \<open>Rounding\<close>

lemma round_half_even_of_int: "round_half_even (of_int m) = m"
  by (simp add: round_half_even_def)

lemma round_half_even_floor: "\<lfloor>y\<rfloor> \<le> round_half_even y"
  by (simp add: round_half_even_def Let_def)

lemma round_half_even_ge:
  assumes "of_int k \<le> y"
  shows "k \<le> round_half_even y"
proof -
  have "k \<le> \<lfloor>y\<rfloor>"
    using assms by (simp add: le_floor_iff)
  then show ?thesis
    using round_half_even_floor [of y] by simp
qed

lemma round_half_even_le:
  assumes "y \<le> of_int k"
  shows "round_half_even y \<le> k"
proof (cases "y = of_int \<lfloor>y\<rfloor>")
  case True
  then have "round_half_even y = \<lfloor>y\<rfloor>"
    by (metis round_half_even_of_int)
  moreover have "\<lfloor>y\<rfloor> \<le> k"
    using assms by (simp add: floor_le_iff)
  ultimately show ?thesis by simp
next
  case False
  then have "of_int \<lfloor>y\<rfloor> \<noteq> y"
    by metis
  then have "of_int \<lfloor>y\<rfloor> < y"
    by (rule order.not_eq_order_implies_strict) (rule of_int_floor_le)
  then have "(of_int \<lfloor>y\<rfloor> :: rat) < of_int k"
    by (rule less_le_trans) (rule assms)
  then have "\<lfloor>y\<rfloor> + 1 \<le> k"
    by simp
  moreover have "round_half_even y \<le> \<lfloor>y\<rfloor> + 1"
    by (simp add: round_half_even_def Let_def)
  ultimately show ?thesis by simp
qed

lemma round_half_even_tie:
  assumes "x = of_int f + 1 / 2"
  shows "round_half_even x = (if even f then f else f + 1)"
proof -
  have "\<lfloor>x\<rfloor> = f"
    unfolding assms by (rule floor_unique) simp_all
  then show ?thesis
    by (simp add: round_half_even_def Let_def assms)
qed

lemma bitlen_lower:
  assumes "0 < a"
  shows "(2::rat) powi (bitlen a - 1) \<le> of_int a"
proof -
  have "2 ^ nat (bitlen a - 1) \<le> a"
    using bitlen_bounds [OF assms] by simp
  then have "(of_int (2 ^ nat (bitlen a - 1)) :: rat) \<le> of_int a"
    by (simp only: of_int_le_iff)
  moreover have "0 \<le> bitlen a - 1"
    using assms by (simp add: bitlen_alt_def)
  ultimately show ?thesis
    by (simp add: power_int_def)
qed

lemma bitlen_upper:
  assumes "0 < b"
  shows "of_int b \<le> (2::rat) powi (bitlen b)"
proof -
  have "b < 2 ^ nat (bitlen b)"
    using bitlen_bounds [OF assms] by simp
  then have "(of_int b :: rat) \<le> of_int (2 ^ nat (bitlen b))"
    by (simp only: of_int_le_iff)
  then show ?thesis
    by (simp add: power_int_def bitlen_nonneg)
qed

lemma bitlen_upper_strict:
  assumes "0 < a"
  shows "of_int a < (2::rat) powi (bitlen a)"
proof -
  have "a < 2 ^ nat (bitlen a)"
    using bitlen_bounds [OF assms] by simp
  then have "(of_int a :: rat) < of_int (2 ^ nat (bitlen a))"
    by (simp only: of_int_less_iff)
  then show ?thesis
    by (simp add: power_int_def bitlen_nonneg)
qed

lemma ilog2_le:
  assumes "0 < x"
  shows "2 powi (ilog2 x) \<le> x"
proof -
  obtain a b where q: "quotient_of x = (a, b)"
    by (cases "quotient_of x")
  have b: "0 < b"
    using quotient_of_denom_pos [OF q] .
  have x: "x = of_int a / of_int b"
    using quotient_of_div [OF q] .
  have a: "0 < a"
    using assms b x by (simp add: zero_less_divide_iff)
  have "2 powi (bitlen a - bitlen b - 1) = (2::rat) powi (bitlen a - 1) / 2 powi (bitlen b)"
    by (simp add: power_int_diff)
  also have "\<dots> \<le> of_int a / of_int b"
    using bitlen_lower [OF a] bitlen_upper [OF b] a b by (intro frac_le) simp_all
  finally have "2 powi (bitlen a - bitlen b - 1) \<le> x"
    using x by simp
  then show ?thesis
    by (simp add: ilog2_def q Let_def)
qed

lemma ilog2_gt:
  assumes "0 < x"
  shows "x < 2 powi (ilog2 x + 1)"
proof -
  obtain a b where q: "quotient_of x = (a, b)"
    by (cases "quotient_of x")
  have b: "0 < b"
    using quotient_of_denom_pos [OF q] .
  have x: "x = of_int a / of_int b"
    using quotient_of_div [OF q] .
  have a: "0 < a"
    using assms b x by (simp add: zero_less_divide_iff)
  have "of_int a / of_int b < (2::rat) powi (bitlen a) / 2 powi (bitlen b - 1)"
    using bitlen_upper_strict [OF a] bitlen_lower [OF b] a b
    by (intro frac_less) simp_all
  also have "\<dots> = 2 powi (bitlen a - (bitlen b - 1))"
    by (simp only: power_int_diff [of "2::rat" "bitlen a" "bitlen b - 1", simplified])
  also have "bitlen a - (bitlen b - 1) = bitlen a - bitlen b + 1"
    by simp
  finally have "x < 2 powi (bitlen a - bitlen b + 1)"
    using x by simp
  then show ?thesis
    by (auto simp: ilog2_def q Let_def not_le)
qed

lemma power_int_two_less_cancel:
  assumes "(2::rat) powi a < 2 powi b"
  shows "a < b"
proof (rule ccontr)
  assume "\<not> a < b"
  then have "b \<le> a" by simp
  then have "(2::rat) powi b \<le> 2 powi a"
    by (intro power_int_increasing) simp_all
  with assms show False by simp
qed

lemma ilog2_unique:
  assumes "2 powi k \<le> x" and "x < 2 powi (k + 1)"
  shows "ilog2 x = k"
proof -
  have pos: "0 < x"
    using assms(1) by (rule less_le_trans [rotated]) simp
  have "2 powi (ilog2 x) < (2::rat) powi (k + 1)"
    using ilog2_le [OF pos] assms(2) by (rule le_less_trans)
  then have "ilog2 x < k + 1"
    by (rule power_int_two_less_cancel)
  moreover have "(2::rat) powi k < 2 powi (ilog2 x + 1)"
    using assms(1) ilog2_gt [OF pos] by (rule le_less_trans)
  then have "k < ilog2 x + 1"
    by (rule power_int_two_less_cancel)
  ultimately show ?thesis by simp
qed

text \<open>
  A value with at most \<open>p\<close> significant bits, within the exponent range, is not changed
  by rounding.
\<close>

lemma fp_round_exact:
  assumes pos: "0 < x"
    and rep: "x = of_int m * 2 powi e0"
    and m: "m < 2 ^ p"
    and emin: "emin \<le> e0"
    and emax: "x < 2 powi emax"
  shows "fp_round p emin emax x = Finite x"
proof -
  define e where "e = max (ilog2 x - (int p - 1)) emin"
  have "2 powi (ilog2 x) \<le> x"
    by (rule ilog2_le) fact
  also have "x < 2 ^ p * 2 powi e0"
  proof -
    have "(of_int m :: rat) < of_int (2 ^ p)"
      using m by (simp only: of_int_less_iff)
    then show ?thesis
      unfolding rep by (intro mult_strict_right_mono) simp_all
  qed
  also have "\<dots> = 2 powi (int p + e0)"
    by (simp add: power_int_add)
  finally have "ilog2 x < int p + e0"
    by (rule power_int_two_less_cancel)
  with emin have le: "e \<le> e0"
    by (simp add: e_def)
  have eq1: "of_int m * 2 powi (e0 - e) = (of_int (m * 2 ^ nat (e0 - e)) :: rat)"
    using le by (simp add: power_int_def)
  have eq2: "x / 2 powi e = of_int m * 2 powi (e0 - e)"
    unfolding rep by (simp add: power_int_diff)
  have "round_half_even (x / 2 powi e) = m * 2 ^ nat (e0 - e)"
    by (simp only: eq1 eq2 round_half_even_of_int)
  then have "of_int (round_half_even (x / 2 powi e)) * 2 powi e
      = of_int m * 2 powi (e0 - e) * (2::rat) powi e"
    by (simp only: eq1)
  also have "\<dots> = x"
    unfolding rep by (simp add: power_int_diff)
  finally have r: "of_int (round_half_even (x / 2 powi e)) * 2 powi e = x" .
  show ?thesis
    using pos emax r by (simp add: fp_round_def Let_def e_def [symmetric])
qed

lemma fp_round_eval:
  assumes "2 powi k \<le> x" and "x < 2 powi (k + 1)"
    and "e = max (k - (int p - 1)) emin"
    and "round_half_even (x / 2 powi e) = m"
    and "r = of_int m * 2 powi e"
    and "r < 2 powi emax"
  shows "fp_round p emin emax x = Finite r"
proof -
  have pos: "0 < x"
    using assms(1) by (rule less_le_trans [rotated]) simp
  have "ilog2 x = k"
    using assms(1,2) by (rule ilog2_unique)
  then show ?thesis
    using pos assms(3-6) by (simp add: fp_round_def Let_def)
qed

lemma round_double_of_int:
  assumes "0 \<le> v" and "v \<le> 2 ^ 53"
  shows "round_double (of_int v) = Finite (of_int v)"
proof -
  consider "v = 0" | "0 < v" "v < 2 ^ 53" | "v = 2 ^ 53"
    using assms by linarith
  then show ?thesis
  proof cases
    case 1
    then show ?thesis by (simp add: round_double_def fp_round_def)
  next
    case 2
    have "fp_round 53 (- 1074) 1024 (of_int v) = Finite (of_int v)"
    proof (rule fp_round_exact [where m = v and ?e0.0 = 0])
      show "(0::rat) < of_int v" using 2 by simp
      show "(of_int v :: rat) = of_int v * 2 powi 0" by simp
      show "v < 2 ^ 53" using 2 by simp
      show "- 1074 \<le> (0::int)" by simp
      have "(of_int v :: rat) < of_int (2 ^ 53)"
        using 2 by (simp only: of_int_less_iff)
      also have "\<dots> < 2 powi 1024" by simp
      finally show "(of_int v :: rat) < 2 powi 1024" .
    qed
    then show ?thesis by (simp add: round_double_def)
  next
    case 3
    have "fp_round 53 (- 1074) 1024 (of_int v) = Finite (of_int v)"
    proof (rule fp_round_exact [where m = 1 and ?e0.0 = 53])
      show "(0::rat) < of_int v" using 3 by simp
      show "(of_int v :: rat) = of_int 1 * 2 powi 53" using 3 by simp
      show "(1::int) < 2 ^ 53" by simp
      show "- 1074 \<le> (53::int)" by simp
      show "(of_int v :: rat) < 2 powi 1024" using 3 by simp
    qed
    then show ?thesis by (simp add: round_double_def)
  qed
qed

lemma round_single_of_int:
  assumes "0 \<le> v" and "v \<le> 2 ^ 24"
  shows "round_single (of_int v) = Finite (of_int v)"
proof -
  consider "v = 0" | "0 < v" "v < 2 ^ 24" | "v = 2 ^ 24"
    using assms by linarith
  then show ?thesis
  proof cases
    case 1
    then show ?thesis by (simp add: round_single_def fp_round_def)
  next
    case 2
    have "fp_round 24 (- 149) 128 (of_int v) = Finite (of_int v)"
    proof (rule fp_round_exact [where m = v and ?e0.0 = 0])
      show "(0::rat) < of_int v" using 2 by simp
      show "(of_int v :: rat) = of_int v * 2 powi 0" by simp
      show "v < 2 ^ 24" using 2 by simp
      show "- 149 \<le> (0::int)" by simp
      have "(of_int v :: rat) < of_int (2 ^ 24)"
        using 2 by (simp only: of_int_less_iff)
      also have "\<dots> < 2 powi 128" by simp
      finally show "(of_int v :: rat) < 2 powi 128" .
    qed
    then show ?thesis by (simp add: round_single_def)
  next
    case 3
    have "fp_round 24 (- 149) 128 (of_int v) = Finite (of_int v)"
    proof (rule fp_round_exact [where m = 1 and ?e0.0 = 24])
      show "(0::rat) < of_int v" using 3 by simp
      show "(of_int v :: rat) = of_int 1 * 2 powi 24" using 3 by simp
      show "(1::int) < 2 ^ 24" by simp
      show "- 149 \<le> (24::int)" by simp
      show "(of_int v :: rat) < 2 powi 128" using 3 by simp
    qed
    then show ?thesis by (simp add: round_single_def)
  qed
qed

lemma round_double_half:
  assumes "0 \<le> n" and "n < 2 ^ 53"
  shows "round_double (1 / 2 * of_int n) = Finite (of_int n / 2)"
proof (cases "n = 0")
  case True
  then show ?thesis by (simp add: round_double_def fp_round_def)
next
  case False
  have "fp_round 53 (- 1074) 1024 (of_int n / 2) = Finite (of_int n / 2)"
  proof (rule fp_round_exact [where m = n and ?e0.0 = "- 1"])
    show "(0::rat) < of_int n / 2" using assms False by simp
    show "(of_int n / 2 :: rat) = of_int n * 2 powi (- 1)" by (simp add: power_int_minus)
    show "n < 2 ^ 53" by fact
    show "- 1074 \<le> (- 1 :: int)" by simp
    have "(of_int n :: rat) < of_int (2 ^ 53)"
      using assms by (simp only: of_int_less_iff)
    then have "(of_int n / 2 :: rat) < 2 ^ 53" using assms by simp
    also have "\<dots> < 2 powi 1024" by simp
    finally show "(of_int n / 2 :: rat) < 2 powi 1024" .
  qed
  then show ?thesis by (simp add: round_double_def)
qed

text \<open>
  Rounding to a double moves a value below \<open>2 ^ 53\<close> no further than to the integer
  below or above it.
\<close>

lemma round_double_bracket:
  assumes pos: "0 < x" and less: "x < 2 ^ 53"
  shows "\<exists>r. round_double x = Finite r \<and> of_int \<lfloor>x\<rfloor> \<le> r \<and> r \<le> of_int \<lceil>x\<rceil>"
proof -
  let ?e = "max (ilog2 x - 52) (- 1074)"
  let ?m = "round_half_even (x / 2 powi ?e)"
  let ?r = "of_int ?m * (2::rat) powi ?e"
  define s :: int where "s = 2 ^ nat (- ?e)"
  have "2 powi (ilog2 x) \<le> x"
    by (rule ilog2_le) fact
  also have "x < 2 powi 53"
    using less by simp
  finally have "ilog2 x < 53"
    by (rule power_int_two_less_cancel)
  then have e: "?e \<le> 0"
    by simp
  have s: "0 < s"
    by (simp add: s_def)
  have pe: "(2::rat) powi ?e = 1 / of_int s"
    using e by (simp add: power_int_def s_def inverse_eq_divide power_one_over)
  have xs: "x / 2 powi ?e = x * of_int s"
    by (simp only: pe) simp
  have lo: "\<lfloor>x\<rfloor> * s \<le> ?m"
    unfolding xs
  proof (rule round_half_even_ge)
    have "of_int \<lfloor>x\<rfloor> * of_int s \<le> x * (of_int s :: rat)"
      using s by (intro mult_right_mono) simp_all
    then show "of_int (\<lfloor>x\<rfloor> * s) \<le> x * (of_int s :: rat)"
      by simp
  qed
  have hi: "?m \<le> \<lceil>x\<rceil> * s"
    unfolding xs
  proof (rule round_half_even_le)
    have "x * (of_int s :: rat) \<le> of_int \<lceil>x\<rceil> * of_int s"
      using s by (intro mult_right_mono) simp_all
    then show "x * (of_int s :: rat) \<le> of_int (\<lceil>x\<rceil> * s)"
      by simp
  qed
  have r: "?r = of_int ?m / of_int s"
    by (simp only: pe) simp
  have "(of_int (\<lfloor>x\<rfloor> * s) :: rat) \<le> of_int ?m"
    using lo by (simp only: of_int_le_iff)
  then have rlo: "of_int \<lfloor>x\<rfloor> \<le> ?r"
    using s by (simp only: r) (simp add: pos_le_divide_eq)
  have "(of_int ?m :: rat) \<le> of_int (\<lceil>x\<rceil> * s)"
    using hi by (simp only: of_int_le_iff)
  then have rhi: "?r \<le> of_int \<lceil>x\<rceil>"
    using s by (simp only: r) (simp add: pos_divide_le_eq)
  have "\<lceil>x\<rceil> \<le> 2 ^ 53"
    using less by (simp add: ceiling_le_iff)
  then have c: "(of_int \<lceil>x\<rceil> :: rat) \<le> 2 ^ 53"
    by simp
  have d: "(2::rat) ^ 53 < 2 powi 1024"
    by simp
  have "?r < 2 powi 1024"
    by (rule le_less_trans [OF rhi], rule le_less_trans [OF c]) (rule d)
  then have "round_double x = Finite ?r"
    using pos by (simp add: round_double_def fp_round_def Let_def)
  with rlo rhi show ?thesis by blast
qed

lemma single_16777217: "round_single 16777217 = Finite 16777216"
proof -
  have "round_half_even (16777217 / 2) = 8388608"
    using round_half_even_tie [of "16777217 / 2" 8388608] by simp
  then show ?thesis
    unfolding round_single_def
    by (intro fp_round_eval [where k = 24 and e = 1 and m = 8388608]) simp_all
qed

lemma double_third_times_3:
  "round_double (6004799503160661 / 18014398509481984 * 3) = Finite 1"
proof -
  have "round_half_even (18014398509481983 / 2) = 9007199254740992"
    using round_half_even_tie [of "18014398509481983 / 2" 9007199254740991] by simp
  then show ?thesis
    unfolding round_double_def
    by (intro fp_round_eval [where k = "- 1" and e = "- 53" and m = 9007199254740992])
       simp_all
qed

lemma float_of_int_exact: "0 \<le> v \<Longrightarrow> v \<le> 2 ^ 53 \<Longrightarrow> float_of_int v = Inr (of_int v)"
  by (simp add: float_of_int_def round_double_of_int)

lemma torch_float_exact: "0 \<le> v \<Longrightarrow> v \<le> 2 ^ 24 \<Longrightarrow> torch_float (of_int v) = Finite (of_int v)"
  by (simp add: torch_float_def round_single_of_int)

lemma torch_long_of_int: "torch_long (of_int v) = v"
  by (simp add: torch_long_def trunc_toward_zero_def)

lemma trunc_nonneg: "0 \<le> q \<Longrightarrow> trunc_toward_zero q = \<lfloor>q\<rfloor>"
  by (simp add: trunc_toward_zero_def)

section \<open>Parsing an annotation document\<close>

lemma class_children:
  "get_class_from_root_children xs =
     (case filter (\<lambda>c. tag c = ''object'') xs of
        [] \<Rightarrow> Inl (ValueError ''no name in xml'')
      | obj # _ \<Rightarrow>
          (case children obj of
             [] \<Rightarrow> Inl IndexError
           | clazz # _ \<Rightarrow>
               (case elem_text clazz of
                  None \<Rightarrow> Inl (KeyError None)
                | Some nm \<Rightarrow>
                    (case name_to_df2_enum nm of
                       None \<Rightarrow> Inl (KeyError (Some nm))
                     | Some c \<Rightarrow> Inr (DF2_value c)))))"
  by (induction xs) simp_all

lemma class_raises:
  "isl (get_class_from_root doc) = (objects doc = [] \<or> unknown_key (class_name doc))"
  by (simp add: get_class_from_root_def class_children objects_def class_name_def
        unknown_key_def split: list.splits option.splits)

text \<open>
  The reverse table resolves every name as the forward table read backwards does, except
  the name of \<open>long_sleeve_dress\<close> in its two spellings.
\<close>

lemma category_named_agrees:
  "s \<noteq> ''long_sleeve_dress'' \<Longrightarrow> s \<noteq> ''long_sleeve_dres'' \<Longrightarrow>
   name_to_df2_enum s = category_named s"
  by (simp add: name_to_df2_enum_def name_to_df2_enum_items_def category_named_def
        df2_enum_to_name_items_def)

lemma category_named_resolved:
  assumes "category_named s = Some c" and "c \<noteq> long_sleeve_dress"
  shows "name_to_df2_enum s = Some c"
proof -
  have "s \<noteq> ''long_sleeve_dress''"
    using assms by (auto simp: category_named_def df2_enum_to_name_items_def)
  moreover have "s \<noteq> ''long_sleeve_dres''"
    using assms by (auto simp: category_named_def df2_enum_to_name_items_def)
  ultimately show ?thesis
    using assms(1) by (simp add: category_named_agrees)
qed

lemma unknown_key_unrecognized:
  "nm \<noteq> Some ''long_sleeve_dress'' \<Longrightarrow> nm \<noteq> Some ''long_sleeve_dres'' \<Longrightarrow>
   unknown_key nm = unrecognized nm"
  by (cases nm) (simp_all add: unknown_key_def unrecognized_def category_named_agrees)

lemma find_append:
  "find P (xs @ ys) = (case find P xs of None \<Rightarrow> find P ys | Some x \<Rightarrow> Some x)"
  by (induction xs) simp_all

lemma filter_find: "filter P xs = y # ys \<Longrightarrow> find P xs = Some y"
  by (induction xs) (auto split: if_splits)

lemma bbox_children:
  "get_bbox_from_root_children xs =
     (case find (\<lambda>g. tag g = ''bndbox'')
             (concat (map children (filter (\<lambda>c. tag c = ''object'') xs))) of
        None \<Rightarrow> Inl (ValueError ''no bounding box in xml'')
      | Some bb \<Rightarrow> extract_bb bb)"
  by (induction xs) (simp_all add: find_append split: option.splits)

lemma bbox_root:
  "get_bbox_from_root doc =
     (case first_bndbox doc of
        None \<Rightarrow> Inl (ValueError ''no bounding box in xml'')
      | Some bb \<Rightarrow> extract_bb bb)"
  by (simp add: get_bbox_from_root_def bbox_children first_bndbox_def objects_def)

lemma loop_readable:
  "list_all readable cs \<Longrightarrow>
   extract_bb_loop cs (a, b, c, d) =
     Inr (final_coord ''xmin'' a cs, final_coord ''xmax'' b cs,
          final_coord ''ymin'' c cs, final_coord ''ymax'' d cs)"
proof (induction cs arbitrary: a b c d)
  case Nil
  then show ?case by simp
next
  case (Cons x cs)
  then have r: "readable x" and rs: "list_all readable cs"
    by simp_all
  show ?case
    using r Cons.IH [OF rs]
    by (auto simp: readable_def coordinate_tags_def assign_if_def isl_def split: sum.splits)
qed

lemma loop_unreadable:
  "\<not> list_all readable cs \<Longrightarrow> isl (extract_bb_loop cs st)"
proof (induction cs arbitrary: st)
  case Nil
  then show ?case by simp
next
  case (Cons x cs)
  obtain a b c d where st: "st = (a, b, c, d)"
    by (cases st)
  show ?case
  proof (cases "readable x")
    case True
    with Cons.prems have "\<not> list_all readable cs" by simp
    then have "\<And>st'. isl (extract_bb_loop cs st')" by (rule Cons.IH)
    then show ?thesis
      by (simp add: st split: sum.splits)
  next
    case False
    then show ?thesis
      by (auto simp: st readable_def coordinate_tags_def assign_if_def isl_def
            split: sum.splits)
  qed
qed

lemma final_coord_last:
  "list_all readable cs \<Longrightarrow> t \<in> set coordinate_tags \<Longrightarrow>
   final_coord t old cs =
     (case filter (\<lambda>c. tag c = t) cs of
        [] \<Rightarrow> old
      | c # r \<Rightarrow> projr (py_int (elem_text (last (c # r)))))"
proof (induction cs arbitrary: old)
  case Nil
  then show ?case by simp
next
  case (Cons x cs)
  then have r: "readable x" and rs: "list_all readable cs"
    by simp_all
  show ?case
    using r Cons.prems(2) Cons.IH [OF rs Cons.prems(2)]
    by (auto simp: readable_def isl_def split: list.splits sum.splits)
qed

lemma readable_iff:
  "list_all readable (children bb) =
     (\<not> list_ex (\<lambda>t. coordinate_unreadable t bb) coordinate_tags)"
  by (auto simp: list_all_iff list_ex_iff readable_def coordinate_unreadable_def
        coordinate_children_def)

lemma final_coord_negative:
  assumes "list_all readable (children bb)" and "t \<in> set coordinate_tags"
  shows "(final_coord t (- 1) (children bb) < 0) =
           (coordinate_missing t bb \<or> coordinate_last_negative t bb)"
proof (cases "coordinate_children t bb")
  case Nil
  then show ?thesis
    using assms
    by (simp add: final_coord_last coordinate_missing_def coordinate_last_negative_def
          coordinate_children_def)
next
  case (Cons c r)
  have "last (c # r) \<in> set (coordinate_children t bb)"
    unfolding Cons by (rule last_in_set) simp
  then have "last (c # r) \<in> set (children bb)" and "tag (last (c # r)) = t"
    by (simp_all add: coordinate_children_def)
  with assms have "\<not> isl (py_int (elem_text (last (c # r))))"
    by (auto simp: list_all_iff readable_def)
  then obtain v where v: "py_int (elem_text (last (c # r))) = Inr v"
    by (cases "py_int (elem_text (last (c # r)))") simp_all
  have "final_coord t (- 1) (children bb) = v"
    using assms Cons v
    by (simp add: final_coord_last coordinate_children_def del: last.simps)
  then show ?thesis
    using Cons v
    by (simp add: coordinate_missing_def coordinate_last_negative_def is_negative_def
          del: last.simps)
qed

lemma extract_bb_raises:
  "isl (extract_bb bb) =
     list_ex (\<lambda>t. coordinate_missing t bb \<or> coordinate_unreadable t bb \<or>
                   coordinate_last_negative t bb) coordinate_tags"
proof (cases "list_all readable (children bb)")
  case True
  have neg: "\<And>t. t \<in> set coordinate_tags \<Longrightarrow>
      (final_coord t (- 1) (children bb) < 0) =
        (coordinate_missing t bb \<or> coordinate_last_negative t bb)"
    using True by (rule final_coord_negative)
  have unr: "\<And>t. t \<in> set coordinate_tags \<Longrightarrow> \<not> coordinate_unreadable t bb"
    using True by (simp add: readable_iff list_ex_iff)
  have "isl (extract_bb bb) =
      (final_coord ''xmin'' (- 1) (children bb) < 0 \<or>
       final_coord ''xmax'' (- 1) (children bb) < 0 \<or>
       final_coord ''ymin'' (- 1) (children bb) < 0 \<or>
       final_coord ''ymax'' (- 1) (children bb) < 0)"
    by (simp add: extract_bb_def loop_readable [OF True])
  also have "\<dots> = list_ex (\<lambda>t. coordinate_missing t bb \<or> coordinate_unreadable t bb \<or>
      coordinate_last_negative t bb) coordinate_tags"
    using neg unr by (simp add: coordinate_tags_def)
  finally show ?thesis .
next
  case False
  then have "isl (extract_bb_loop (children bb) (- 1, - 1, - 1, - 1))"
    by (rule loop_unreadable)
  then have "isl (extract_bb bb)"
    by (auto simp: extract_bb_def isl_def split: sum.splits)
  moreover have "list_ex (\<lambda>t. coordinate_unreadable t bb) coordinate_tags"
    using False by (simp add: readable_iff)
  then have "list_ex (\<lambda>t. coordinate_missing t bb \<or> coordinate_unreadable t bb \<or>
      coordinate_last_negative t bb) coordinate_tags"
    by (auto simp: list_ex_iff)
  ultimately show ?thesis by simp
qed

text \<open>
  Claim C7, as stated (parsing raises exactly when there is no object, the class name is
  not recognized, there is no bounding box, or a coordinate is missing or negative, and
  succeeds otherwise), is false: a file with an object, a recognized class name and a
  bounding box whose four coordinates are present and none negative, but whose \<open>xmin\<close> is
  written \<open>12.5\<close>, raises the \<^verbatim>\<open>ValueError\<close> of \<^verbatim>\<open>int\<close>.
\<close>

theorem C7_fractional_coordinate_raises:
  "\<not> claimed_malformed fractional_coordinate_doc \<and>
   get_bbox_from_root fractional_coordinate_doc = Inl invalid_literal \<and>
   parse_raises fractional_coordinate_doc"
  by code_simp

text \<open>
  Claim C7, amended: on a file whose class name is not that of \<open>long_sleeve_dress\<close> (in
  the spelling of either table), parsing raises exactly when there is no object element,
  when the first object has no first child or the text of that child is not the name of a
  category, when no object has a \<^verbatim>\<open>bndbox\<close> child, or when in the first \<^verbatim>\<open>bndbox\<close> found
  some coordinate has no child, some child with a coordinate's tag has a text that is not
  an integer literal, or the last child of some coordinate holds a negative integer;
  otherwise it succeeds.
\<close>

theorem C7_parse_raises_iff_malformed:
  assumes "class_name doc \<noteq> Some ''long_sleeve_dress''"
    and "class_name doc \<noteq> Some ''long_sleeve_dres''"
  shows "parse_raises doc = malformed doc"
  using unknown_key_unrecognized [OF assms]
  by (auto simp: parse_raises_def malformed_def bbox_root class_raises extract_bb_raises
        split: option.splits)

theorem C7_parse_raises_witness:
  "malformed fractional_coordinate_doc \<and> parse_raises fractional_coordinate_doc \<and>
   \<not> malformed shorts_doc \<and> \<not> parse_raises shorts_doc"
proof -
  have a: "class_name fractional_coordinate_doc \<noteq> Some ''long_sleeve_dress''"
      "class_name fractional_coordinate_doc \<noteq> Some ''long_sleeve_dres''"
    by code_simp+
  have b: "class_name shorts_doc \<noteq> Some ''long_sleeve_dress''"
      "class_name shorts_doc \<noteq> Some ''long_sleeve_dres''"
    by code_simp+
  have "malformed fractional_coordinate_doc" and "\<not> malformed shorts_doc"
    by code_simp+
  then show ?thesis
    using C7_parse_raises_iff_malformed [OF a] C7_parse_raises_iff_malformed [OF b]
    by simp
qed

section \<open>Labels of well-formed files\<close>

lemma the_only_Some: "(the_only xs = Some x) = (xs = [x])"
  by (cases xs) (auto simp: the_only_def)

lemma coordinate_value_SomeD:
  "coordinate_value t bb = Some v \<Longrightarrow>
   \<exists>e. coordinate_children t bb = [e] \<and> py_int (elem_text e) = Inr v"
  by (auto simp: coordinate_value_def the_only_Some split: option.splits sum.splits)

lemma coordinate_value_readable:
  assumes "coordinate_value t bb = Some v" and "ch \<in> set (children bb)" and "tag ch = t"
  shows "\<not> isl (py_int (elem_text ch))"
proof -
  obtain e where e: "coordinate_children t bb = [e]" "py_int (elem_text e) = Inr v"
    using coordinate_value_SomeD [OF assms(1)] by blast
  have "ch \<in> set (coordinate_children t bb)"
    using assms(2,3) by (simp add: coordinate_children_def)
  then have "ch = e" using e(1) by simp
  then show ?thesis using e(2) by simp
qed

lemma coordinate_value_final:
  assumes "list_all readable (children bb)" and "t \<in> set coordinate_tags"
    and "coordinate_value t bb = Some v"
  shows "final_coord t old (children bb) = v"
proof -
  obtain e where e: "coordinate_children t bb = [e]" "py_int (elem_text e) = Inr v"
    using coordinate_value_SomeD [OF assms(3)] by blast
  then show ?thesis
    using final_coord_last [OF assms(1,2), of old]
    by (simp add: coordinate_children_def)
qed

lemma extract_bb_of_box:
  assumes "box_of_bndbox bb = Some box"
  shows "extract_bb bb = Inr box"
proof -
  from assms obtain x1 x2 y1 y2 where
    v: "coordinate_value ''xmin'' bb = Some x1" "coordinate_value ''xmax'' bb = Some x2"
       "coordinate_value ''ymin'' bb = Some y1" "coordinate_value ''ymax'' bb = Some y2"
    and nonneg: "0 \<le> x1" "0 \<le> x2" "0 \<le> y1" "0 \<le> y2"
    and box: "box = [x1, x2, y1, y2]"
    by (auto simp: box_of_bndbox_def split: option.splits if_splits)
  have r: "list_all readable (children bb)"
    unfolding list_all_iff readable_def coordinate_tags_def
    using v by (auto dest: coordinate_value_readable)
  have "extract_bb_loop (children bb) (- 1, - 1, - 1, - 1) = Inr (x1, x2, y1, y2)"
    using v by (simp add: loop_readable [OF r] coordinate_value_final [OF r]
        coordinate_tags_def)
  then show ?thesis
    using nonneg by (simp add: extract_bb_def box)
qed

lemma well_formed_parses:
  assumes "well_formed_annotation doc = Some (c, box)" and "c \<noteq> long_sleeve_dress"
  shows "get_bbox_from_root doc = Inr box \<and> get_class_from_root doc = Inr (DF2_value c)"
proof -
  from assms(1) obtain obj nm bb where
    o: "objects doc = [obj]" and cn: "class_name doc = Some nm"
    and cn': "category_named nm = Some c"
    and f: "filter (\<lambda>g. tag g = ''bndbox'') (children obj) = [bb]"
    and b: "box_of_bndbox bb = Some box"
    by (auto simp: well_formed_annotation_def the_only_Some split: option.splits)
  have "first_bndbox doc = Some bb"
    using filter_find [OF f] by (simp add: first_bndbox_def o)
  then have "get_bbox_from_root doc = Inr box"
    by (simp add: bbox_root extract_bb_of_box [OF b])
  moreover have n: "name_to_df2_enum nm = Some c"
    using cn' assms(2) by (rule category_named_resolved)
  have "get_class_from_root doc = Inr (DF2_value c)"
    using o cn n
    by (simp add: get_class_from_root_def class_children objects_def class_name_def
          split: list.splits option.splits)
  ultimately show ?thesis by simp
qed

lemma box_of_bndbox_shape:
  "box_of_bndbox bb = Some box \<Longrightarrow>
   \<exists>x1 x2 y1 y2. box = [x1, x2, y1, y2] \<and> 0 \<le> x1 \<and> 0 \<le> x2 \<and> 0 \<le> y1 \<and> 0 \<le> y2"
  by (auto simp: box_of_bndbox_def split: option.splits if_splits)

lemma well_formed_shape:
  "well_formed_annotation doc = Some (c, box) \<Longrightarrow>
   \<exists>x1 x2 y1 y2. box = [x1, x2, y1, y2] \<and> 0 \<le> x1 \<and> 0 \<le> x2 \<and> 0 \<le> y1 \<and> 0 \<le> y2"
  by (auto simp: well_formed_annotation_def split: option.splits
        dest: box_of_bndbox_shape)

lemma well_formed_length:
  "well_formed_annotation doc = Some (c, box) \<Longrightarrow> length box = 4"
  using well_formed_shape [of doc c box] by auto

lemma fill_label_exact:
  assumes "0 \<le> x1" "x1 \<le> 2 ^ 24" "0 \<le> x2" "x2 \<le> 2 ^ 24"
    and "0 \<le> y1" "y1 \<le> 2 ^ 24" "0 \<le> y2" "y2 \<le> 2 ^ 24"
    and "0 \<le> c" "c \<le> 13"
  shows "fill_label (Inr [x1, x2, y1, y2]) (Inr c) =
    Inr \<lparr>boxes = [[Finite (of_int x1), Finite (of_int x2), Finite (of_int y1),
                    Finite (of_int y2)]],
         labels = [c]\<rparr>"
  using assms
  by (simp add: fill_label_def float_of_int_exact torch_float_exact torch_long_of_int)

lemma label_of_well_formed:
  assumes wf: "well_formed_annotation doc = Some (c, box)"
    and c': "c \<noteq> long_sleeve_dress"
    and small: "list_all (\<lambda>v. v \<le> 2 ^ 24) box"
  shows "label_of_root doc =
    Inr \<lparr>boxes = [map (\<lambda>v. Finite (of_int v)) box], labels = [DF2_value c]\<rparr>"
proof -
  obtain x1 x2 y1 y2 where box: "box = [x1, x2, y1, y2]"
    and nonneg: "0 \<le> x1" "0 \<le> x2" "0 \<le> y1" "0 \<le> y2"
    using well_formed_shape [OF wf] by blast
  have c: "0 \<le> DF2_value c" "DF2_value c \<le> 13"
    using DF2_value_range [of c] by simp_all
  show ?thesis
    using well_formed_parses [OF wf c'] small nonneg c
    by (simp add: label_of_root_def box fill_label_exact)
qed

lemma load_label_doc:
  "xml_files fs p = Some (XmlDoc doc) \<Longrightarrow> load_label fs p = label_of_root doc"
  by (simp add: load_label_def label_of_root_def get_bbox_from_xml_def get_class_from_xml_def
        ET_parse_def)

lemma shorts_doc_well_formed:
  "well_formed_annotation shorts_doc = Some (shorts, [10, 50, 20, 60])"
  by code_simp

lemma vest_doc_well_formed:
  "well_formed_annotation vest_doc = Some (vest, [1, 2, 3, 4])"
  by code_simp

lemma large_coordinate_doc_well_formed:
  "well_formed_annotation large_coordinate_doc = Some (shorts, [10, 16777217, 20, 60])"
  by code_simp

text \<open>
  Claim C6 (of several objects only the first is used, for the class and for the box).
  The class is read from the first object, but the box is not: when the first object has
  no \<^verbatim>\<open>bndbox\<close> child, the outer loop of \<^verbatim>\<open>get_bbox_from_xml\<close> goes on to the next object.
  Here the label pairs the class of the first object (shorts, 7) with the box of the
  second.
\<close>

theorem C6_box_taken_from_second_object:
  "get_class_from_root two_object_doc = Inr (DF2_value shorts) \<and>
   get_bbox_from_root two_object_doc = Inr [1, 2, 3, 4] \<and>
   label_of_root two_object_doc =
     Inr \<lparr>boxes = [[Finite 1, Finite 2, Finite 3, Finite 4]], labels = [7]\<rparr>"
proof -
  have p: "get_class_from_root two_object_doc = Inr 7 \<and>
      get_bbox_from_root two_object_doc = Inr [1, 2, 3, 4]"
    by code_simp
  then show ?thesis
    using fill_label_exact [of 1 2 3 4 7] by (simp add: label_of_root_def)
qed

text \<open>
  When the first object has a \<^verbatim>\<open>bndbox\<close> child, later objects are not looked at.
\<close>

lemma first_object_with_bndbox_decides:
  assumes "tag obj = ''object''"
    and "find (\<lambda>g. tag g = ''bndbox'') (children obj) = Some bb"
    and "children obj = clazz # others"
  shows "get_bbox_from_root_children (obj # rest) = extract_bb bb"
    and "get_class_from_root_children (obj # rest) =
      get_class_from_root_children [obj]"
  using assms by simp_all

section \<open>Construction and retrieval\<close>

lemmas init_defs =
  RobotFashion_init_def ensure_dataset_def modes_def train_mode_def val_mode_def
  test_mode_def load_train_data_def load_val_data_def train_data_dir_def val_data_dir_def
  train_folder_name_def val_folder_name_def get_root_data_folder_def
  get_data_folder_name_def get_dataset_name_def os_path_join_def load_data_def
  list_files_def

lemma init_InrD:
  assumes "RobotFashion_init chk dl fs wp md dlm ratio tf = Inr (self, fs')"
  shows "ensure_dataset chk dl fs wp dlm = Inr fs'"
    and "md = train_mode \<or> md = val_mode"
    and "\<not> num_le_zero ratio" and "\<not> num_gt_one ratio"
    and "load_data fs' (if md = train_mode then train_data_dir wp else val_data_dir wp)
           = Inr (image_paths self, label_paths self)"
    and "transform self = tf" and "subset_ratio self = ratio"
  using assms
  by (auto simp: RobotFashion_init_def load_train_data_def load_val_data_def
        load_test_data_def split: sum.splits if_splits prod.splits)

lemma load_data_lengths:
  "load_data fs d = Inr (ips, lps) \<Longrightarrow> length ips = length lps"
  by (auto simp: load_data_def Let_def split: sum.splits if_splits)

lemma init_lengths:
  assumes "RobotFashion_init chk dl fs wp md dlm ratio tf = Inr (self, fs')"
  shows "length (label_paths self) = length (image_paths self)"
  using init_InrD(5) [OF assms] by (auto dest: load_data_lengths)

lemma getitem_in_range:
  assumes "0 \<le> i" and "i < int (length (image_paths self))"
    and "length (label_paths self) = length (image_paths self)"
    and "load_image fs (image_paths self ! nat i) = Inr img"
    and "load_label fs (label_paths self ! nat i) = Inr lab"
  shows "getitem fs self i = Inr (case transform self of None \<Rightarrow> img | Some f \<Rightarrow> f img, lab)"
  using assms by (simp add: getitem_def py_index_def)

lemma example_train_init:
  "\<not> num_le_zero ratio \<Longrightarrow> \<not> num_gt_one ratio \<Longrightarrow>
   RobotFashion_init accept_check no_download example_fs ''/data'' ''train'' False ratio None
     = Inr (train_accessor ratio, example_fs)"
  by (simp add: init_defs accept_check_def example_fs_def train_accessor_def)

lemma example_val_init:
  "RobotFashion_init accept_check no_download example_fs ''/data'' ''val'' False (PyInt 1) None
     = Inr (val_accessor, example_fs)"
  by (simp add: init_defs accept_check_def example_fs_def val_accessor_def)

lemma three_init:
  "RobotFashion_init accept_check no_download three_fs ''/data'' ''train'' False
     (PyFloat (Finite double_third)) None
     = Inr (three_accessor, three_fs)"
  by (simp add: init_defs accept_check_def three_fs_def three_accessor_def double_third_def)

lemma mismatch_init:
  "RobotFashion_init accept_check no_download mismatch_fs ''/data'' ''train'' False (PyInt 1)
     None = Inl (ValueError ''length of images and labels doesn't match'')"
  by (simp add: init_defs accept_check_def mismatch_fs_def example_fs_def)

text \<open>
  Claim C1, as stated (the boxes of a well-formed file are returned as a float array equal
  to the file's coordinates), is false for a coordinate that single precision cannot
  hold: the validation example has \<open>xmax = 16777217\<close>, and retrieval returns
  \<open>16777216\<close>.
\<close>

theorem C1_large_coordinate_is_rounded:
  "RobotFashion_init accept_check no_download example_fs ''/data'' ''val'' False (PyInt 1) None
     = Inr (val_accessor, example_fs) \<and>
   xml_files example_fs (label_paths val_accessor ! 0) = Some (XmlDoc large_coordinate_doc) \<and>
   well_formed_annotation large_coordinate_doc = Some (shorts, [10, 16777217, 20, 60]) \<and>
   getitem example_fs val_accessor 0 =
     Inr (3, \<lparr>boxes = [[Finite 10, Finite 16777216, Finite 20, Finite 60]], labels = [7]\<rparr>)"
proof -
  have xml: "xml_files example_fs (label_paths val_accessor ! 0)
      = Some (XmlDoc large_coordinate_doc)"
    by (simp add: example_fs_def val_accessor_def)
  have "fill_label (Inr [10, 16777217, 20, 60]) (Inr 7) =
      Inr \<lparr>boxes = [[Finite 10, Finite 16777216, Finite 20, Finite 60]], labels = [7]\<rparr>"
    using float_of_int_exact [of 10] float_of_int_exact [of 16777217]
      float_of_int_exact [of 20] float_of_int_exact [of 60] float_of_int_exact [of 7]
      torch_float_exact [of 10] torch_float_exact [of 20] torch_float_exact [of 60]
      torch_long_of_int [of 7] single_16777217
    by (simp add: fill_label_def torch_float_def)
  then have "label_of_root large_coordinate_doc =
      Inr \<lparr>boxes = [[Finite 10, Finite 16777216, Finite 20, Finite 60]], labels = [7]\<rparr>"
    using well_formed_parses [OF large_coordinate_doc_well_formed]
    by (simp add: label_of_root_def)
  then have "load_label example_fs (label_paths val_accessor ! 0) =
      Inr \<lparr>boxes = [[Finite 10, Finite 16777216, Finite 20, Finite 60]], labels = [7]\<rparr>"
    by (simp only: load_label_doc [OF xml])
  then have "getitem example_fs val_accessor 0 =
      Inr (3, \<lparr>boxes = [[Finite 10, Finite 16777216, Finite 20, Finite 60]], labels = [7]\<rparr>)"
    by (simp add: getitem_def py_index_def load_image_def val_accessor_def example_fs_def)
  then show ?thesis
    using example_val_init xml large_coordinate_doc_well_formed by simp
qed

text \<open>
  Claim C1, amended: for every index \<open>i\<close> from 0 up to the number of pairs of a constructed
  accessor whose \<open>i\<close>-th image opens and whose \<open>i\<close>-th annotation file is well-formed, of a
  category other than \<open>long_sleeve_dress\<close> and with coordinates of at most \<open>2 ^ 24\<close>,
  retrieval returns the (transformed) image and a record whose boxes are one row of the
  four coordinates, exactly, and whose labels are the one value of the category.
\<close>

theorem C1_retrieval_of_well_formed_file:
  assumes init: "RobotFashion_init chk dl fs wp md dlm ratio tf = Inr (self, fs')"
    and i: "0 \<le> i" "i < int (length (image_paths self))"
    and img: "image_files fs' (image_paths self ! nat i) = Some img"
    and xml: "xml_files fs' (label_paths self ! nat i) = Some (XmlDoc doc)"
    and wf: "well_formed_annotation doc = Some (c, box)"
    and c: "c \<noteq> long_sleeve_dress"
    and small: "list_all (\<lambda>v. v \<le> 2 ^ 24) box"
  shows "getitem fs' self i =
      Inr (case tf of None \<Rightarrow> img | Some f \<Rightarrow> f img,
           \<lparr>boxes = [map (\<lambda>v. Finite (of_int v)) box], labels = [DF2_value c]\<rparr>)
    \<and> length box = 4"
proof -
  have "load_label fs' (label_paths self ! nat i) =
      Inr \<lparr>boxes = [map (\<lambda>v. Finite (of_int v)) box], labels = [DF2_value c]\<rparr>"
    by (simp only: load_label_doc [OF xml] label_of_well_formed [OF wf c small])
  moreover have "load_image fs' (image_paths self ! nat i) = Inr img"
    using img by (simp add: load_image_def)
  ultimately have "getitem fs' self i =
      Inr (case transform self of None \<Rightarrow> img | Some f \<Rightarrow> f img,
           \<lparr>boxes = [map (\<lambda>v. Finite (of_int v)) box], labels = [DF2_value c]\<rparr>)"
    using i init_lengths [OF init] by (intro getitem_in_range) simp_all
  then show ?thesis
    using well_formed_length [OF wf] init_InrD(6) [OF init] by simp
qed

theorem C1_retrieval_witness:
  "getitem example_fs (train_accessor (PyInt 1)) 0 =
     Inr (1, \<lparr>boxes = [[Finite 10, Finite 50, Finite 20, Finite 60]], labels = [7]\<rparr>)"
proof -
  have init: "RobotFashion_init accept_check no_download example_fs ''/data'' ''train'' False
      (PyInt 1) None = Inr (train_accessor (PyInt 1), example_fs)"
    by (rule example_train_init) simp_all
  have img: "image_files example_fs (image_paths (train_accessor (PyInt 1)) ! nat 0) = Some 1"
    by (simp add: example_fs_def train_accessor_def)
  have xml: "xml_files example_fs (label_paths (train_accessor (PyInt 1)) ! nat 0)
      = Some (XmlDoc shorts_doc)"
    by (simp add: example_fs_def train_accessor_def)
  have small: "list_all (\<lambda>v. v \<le> 2 ^ 24) [10, 50, 20, 60 :: int]"
    by simp
  have i: "(0::int) \<le> 0" "0 < int (length (image_paths (train_accessor (PyInt 1))))"
    by (simp_all add: train_accessor_def)
  have c: "shorts \<noteq> long_sleeve_dress"
    by simp
  show ?thesis
    using C1_retrieval_of_well_formed_file [OF init i img xml shorts_doc_well_formed c small]
    by simp
qed

text \<open>
  Claim C4, as stated (the selector \<open>validation\<close> is supported), is false: the supported
  selectors are \<open>train\<close>, \<open>val\<close> and \<open>test\<close>, and on a dataset that passes the folder
  check and has a \<open>validation\<close> folder, construction with the selector \<open>validation\<close>
  raises the error for a bad mode.
\<close>

theorem C4_validation_selector_rejected:
  "accept_check example_fs (get_root_data_folder ''/data'') get_folders get_dataset_name \<and>
   listdir example_fs (val_data_dir ''/data'') = None \<and>
   listdir example_fs (os_path_join (val_data_dir ''/data'') ''images'') = Some [''v.jpg''] \<and>
   RobotFashion_init accept_check no_download example_fs ''/data'' ''validation'' False
     (PyInt 1) None = Inl (bad_mode ''validation'')"
  by (simp add: init_defs accept_check_def example_fs_def)

text \<open>
  Claim C4, amended: the selector \<open>val\<close> is supported: on a dataset that passes the
  folder check, construction with \<open>val\<close> never raises the error for a bad mode, and (for a
  subset ratio in range) it indexes the \<open>validation\<close> folder under the data folder.
\<close>

theorem C4_val_selector_supported:
  assumes "chk fs (get_root_data_folder wp) get_folders get_dataset_name"
  shows "val_mode = ''val'' \<and>
    RobotFashion_init chk dl fs wp ''val'' dlm ratio tf \<noteq> Inl (bad_mode ''val'') \<and>
    RobotFashion_init chk dl fs wp ''val'' dlm ratio tf =
      (if num_le_zero ratio \<or> num_gt_one ratio then Inl bad_subset_ratio
       else
         (case load_data fs (os_path_join (get_root_data_folder wp) ''validation'') of
            Inl e \<Rightarrow> Inl e
          | Inr (ips, lps) \<Rightarrow>
              Inr (\<lparr>dataset_root = wp, transform = tf, subset_ratio = ratio, mode = ''val'',
                    image_paths = ips, label_paths = lps\<rparr>, fs)))"
proof -
  have eq: "RobotFashion_init chk dl fs wp ''val'' dlm ratio tf =
      (if num_le_zero ratio \<or> num_gt_one ratio then Inl bad_subset_ratio
       else
         (case load_data fs (os_path_join (get_root_data_folder wp) ''validation'') of
            Inl e \<Rightarrow> Inl e
          | Inr (ips, lps) \<Rightarrow>
              Inr (\<lparr>dataset_root = wp, transform = tf, subset_ratio = ratio, mode = ''val'',
                    image_paths = ips, label_paths = lps\<rparr>, fs)))"
    using assms
    by (simp add: RobotFashion_init_def ensure_dataset_def modes_def train_mode_def
          val_mode_def test_mode_def load_val_data_def val_data_dir_def val_folder_name_def)
  have "load_data fs (os_path_join (get_root_data_folder wp) ''validation'')
      \<noteq> Inl (bad_mode ''val'')"
    by (auto simp: load_data_def list_files_def Let_def bad_mode_def split: option.splits)
  then have "RobotFashion_init chk dl fs wp ''val'' dlm ratio tf \<noteq> Inl (bad_mode ''val'')"
    unfolding eq
    by (auto simp: bad_subset_ratio_def bad_mode_def split: sum.splits)
  then show ?thesis
    using eq by (simp add: val_mode_def)
qed

theorem C4_val_selector_witness:
  "RobotFashion_init accept_check no_download example_fs ''/data'' ''val'' False (PyInt 1) None
     = Inr (val_accessor, example_fs) \<and>
   image_paths val_accessor = [''/data/robotfashion_data_folder/validation/images/v.jpg'']"
proof -
  have chk: "accept_check example_fs (get_root_data_folder ''/data'') get_folders
      get_dataset_name"
    by (simp add: accept_check_def)
  have "load_data example_fs (os_path_join (get_root_data_folder ''/data'') ''validation'')
      = Inr (image_paths val_accessor, label_paths val_accessor)"
    by (simp add: init_defs example_fs_def val_accessor_def)
  then show ?thesis
    using C4_val_selector_supported [where chk = accept_check and fs = example_fs
        and wp = "''/data''" and dl = no_download and dlm = False and ratio = "PyInt 1"
        and tf = None, OF chk, THEN conjunct2, THEN conjunct2]
    by (simp add: val_accessor_def)
qed

lemma list_files_sorted:
  assumes "listdir fs dir = Some names"
  shows "list_files fs dir =
    Inr (map (os_path_join dir) (sort (filter (\<lambda>f. isfile fs (os_path_join dir f)) names)))"
  using assms by (simp add: list_files_def filter_sort)

lemma load_data_listed:
  assumes "listdir fs (os_path_join d ''images'') = Some imgs"
    and "listdir fs (os_path_join d ''annotations'') = Some annos"
  shows "load_data fs d =
    (if length (filter (\<lambda>f. isfile fs (os_path_join (os_path_join d ''images'') f)) imgs)
        \<noteq> length (filter (\<lambda>f. isfile fs (os_path_join (os_path_join d ''annotations'') f))
              annos)
     then Inl (ValueError ''length of images and labels doesn't match'')
     else Inr
       (map (os_path_join (os_path_join d ''images''))
          (sort (filter (\<lambda>f. isfile fs (os_path_join (os_path_join d ''images'') f)) imgs)),
        map (os_path_join (os_path_join d ''annotations''))
          (sort (filter (\<lambda>f. isfile fs (os_path_join (os_path_join d ''annotations'') f))
             annos))))"
  using assms by (simp add: load_data_def Let_def list_files_sorted)

lemma init_loads:
  assumes "ensure_dataset chk dl fs wp dlm = Inr fs'"
    and "md = train_mode \<and> d = train_data_dir wp \<or> md = val_mode \<and> d = val_data_dir wp"
    and "\<not> num_le_zero ratio" and "\<not> num_gt_one ratio"
  shows "RobotFashion_init chk dl fs wp md dlm ratio tf =
    (case load_data fs' d of
       Inl e \<Rightarrow> Inl e
     | Inr (ips, lps) \<Rightarrow>
         Inr (\<lparr>dataset_root = wp, transform = tf, subset_ratio = ratio, mode = md,
               image_paths = ips, label_paths = lps\<rparr>, fs'))"
  using assms
  by (auto simp: RobotFashion_init_def modes_def train_mode_def val_mode_def test_mode_def
        load_train_data_def load_val_data_def)

lemma sort_example_names:
  "sort [''b.jpg'', ''a.jpg''] = [''a.jpg'', ''b.jpg'']"
  "sort [''b.xml'', ''a.xml''] = [''a.xml'', ''b.xml'']"
  by simp_all

lemma example_train_files:
  "filter (\<lambda>f. isfile example_fs (os_path_join ''/data/robotfashion_data_folder/train/images'' f))
     [''b.jpg'', ''a.jpg''] = [''b.jpg'', ''a.jpg'']"
  "filter (\<lambda>f. isfile example_fs
       (os_path_join ''/data/robotfashion_data_folder/train/annotations'' f))
     [''b.xml'', ''a.xml''] = [''b.xml'', ''a.xml'']"
  by (simp_all add: example_fs_def os_path_join_def)

lemma mismatch_train_files:
  "filter (\<lambda>f. isfile mismatch_fs
       (os_path_join ''/data/robotfashion_data_folder/train/images'' f))
     [''b.jpg'', ''a.jpg''] = [''b.jpg'', ''a.jpg'']"
  "filter (\<lambda>f. isfile mismatch_fs
       (os_path_join ''/data/robotfashion_data_folder/train/annotations'' f))
     [''a.xml''] = [''a.xml'']"
  by (simp_all add: mismatch_fs_def example_fs_def os_path_join_def)

lemma example_train_dirs:
  "train_data_dir ''/data'' = ''/data/robotfashion_data_folder/train''"
  "os_path_join ''/data/robotfashion_data_folder/train'' ''images''
     = ''/data/robotfashion_data_folder/train/images''"
  "os_path_join ''/data/robotfashion_data_folder/train'' ''annotations''
     = ''/data/robotfashion_data_folder/train/annotations''"
  by (simp_all add: init_defs)

text \<open>
  Claim C8: construction, once the folder check has passed, the selector is \<open>train\<close> or
  \<open>val\<close> and the subset ratio is in range, lists the regular files of the split's
  \<open>images\<close> and \<open>annotations\<close> folders, each sorted by name, as the image paths and the
  label paths (so that the \<open>i\<close>-th image is paired with the \<open>i\<close>-th annotation), and
  raises the error for unequal counts whenever the two numbers of files differ.
\<close>

theorem C8_enumeration:
  assumes ens: "ensure_dataset chk dl fs wp dlm = Inr fs'"
    and md: "md = train_mode \<and> d = train_data_dir wp \<or> md = val_mode \<and> d = val_data_dir wp"
    and ratio: "\<not> num_le_zero ratio" "\<not> num_gt_one ratio"
    and imgs: "listdir fs' (os_path_join d ''images'') = Some imgs"
    and annos: "listdir fs' (os_path_join d ''annotations'') = Some annos"
    and fi: "fi = filter (\<lambda>f. isfile fs' (os_path_join (os_path_join d ''images'') f)) imgs"
    and fa: "fa = filter (\<lambda>f. isfile fs' (os_path_join (os_path_join d ''annotations'') f))
      annos"
  shows "(length fi \<noteq> length fa \<longrightarrow>
      RobotFashion_init chk dl fs wp md dlm ratio tf =
        Inl (ValueError ''length of images and labels doesn't match'')) \<and>
    (length fi = length fa \<longrightarrow>
      (\<exists>self. RobotFashion_init chk dl fs wp md dlm ratio tf = Inr (self, fs') \<and>
         image_paths self = map (os_path_join (os_path_join d ''images'')) (sort fi) \<and>
         label_paths self = map (os_path_join (os_path_join d ''annotations'')) (sort fa) \<and>
         sorted (sort fi) \<and> sorted (sort fa) \<and>
         length (image_paths self) = length fi \<and>
         length (label_paths self) = length (image_paths self)))"
  unfolding init_loads [OF ens md ratio] load_data_listed [OF imgs annos] fi fa
  by simp

theorem C8_enumeration_witness:
  "RobotFashion_init accept_check no_download mismatch_fs ''/data'' ''train'' False (PyInt 1)
     None = Inl (ValueError ''length of images and labels doesn't match'') \<and>
   (\<exists>self. RobotFashion_init accept_check no_download example_fs ''/data'' ''train'' False
        (PyInt 1) None = Inr (self, example_fs) \<and>
      image_paths self = [''/data/robotfashion_data_folder/train/images/a.jpg'',
                          ''/data/robotfashion_data_folder/train/images/b.jpg''] \<and>
      label_paths self = [''/data/robotfashion_data_folder/train/annotations/a.xml'',
                          ''/data/robotfashion_data_folder/train/annotations/b.xml''])"
proof -
  let ?d = "''/data/robotfashion_data_folder/train''"
  have e1: "ensure_dataset accept_check no_download mismatch_fs ''/data'' False
      = Inr mismatch_fs"
    by (simp add: ensure_dataset_def accept_check_def)
  have e2: "ensure_dataset accept_check no_download example_fs ''/data'' False
      = Inr example_fs"
    by (simp add: ensure_dataset_def accept_check_def)
  have md: "''train'' = train_mode \<and> ?d = train_data_dir ''/data'' \<or>
      ''train'' = val_mode \<and> ?d = val_data_dir ''/data''"
    by (simp add: example_train_dirs train_mode_def)
  have ratio: "\<not> num_le_zero (PyInt 1)" "\<not> num_gt_one (PyInt 1)"
    by simp_all
  have i1: "listdir mismatch_fs (os_path_join ?d ''images'') = Some [''b.jpg'', ''a.jpg'']"
    unfolding example_train_dirs by (simp add: mismatch_fs_def example_fs_def)
  have a1: "listdir mismatch_fs (os_path_join ?d ''annotations'') = Some [''a.xml'']"
    unfolding example_train_dirs by (simp add: mismatch_fs_def example_fs_def)
  have i2: "listdir example_fs (os_path_join ?d ''images'') = Some [''b.jpg'', ''a.jpg'']"
    unfolding example_train_dirs by (simp add: example_fs_def)
  have a2: "listdir example_fs (os_path_join ?d ''annotations'')
      = Some [''b.xml'', ''a.xml'']"
    unfolding example_train_dirs by (simp add: example_fs_def)
  have f1: "[''b.jpg'', ''a.jpg''] =
      filter (\<lambda>f. isfile mismatch_fs (os_path_join (os_path_join ?d ''images'') f))
        [''b.jpg'', ''a.jpg'']"
    unfolding example_train_dirs by (simp only: mismatch_train_files)
  have g1: "[''a.xml''] =
      filter (\<lambda>f. isfile mismatch_fs (os_path_join (os_path_join ?d ''annotations'') f))
        [''a.xml'']"
    unfolding example_train_dirs by (simp only: mismatch_train_files)
  have f2: "[''b.jpg'', ''a.jpg''] =
      filter (\<lambda>f. isfile example_fs (os_path_join (os_path_join ?d ''images'') f))
        [''b.jpg'', ''a.jpg'']"
    unfolding example_train_dirs by (simp only: example_train_files)
  have g2: "[''b.xml'', ''a.xml''] =
      filter (\<lambda>f. isfile example_fs (os_path_join (os_path_join ?d ''annotations'') f))
        [''b.xml'', ''a.xml'']"
    unfolding example_train_dirs by (simp only: example_train_files)
  have "RobotFashion_init accept_check no_download mismatch_fs ''/data'' ''train'' False
      (PyInt 1) None = Inl (ValueError ''length of images and labels doesn't match'')"
    using C8_enumeration [OF e1 md ratio i1 a1 f1 g1, of None] by simp
  moreover have "\<exists>self. RobotFashion_init accept_check no_download example_fs ''/data''
        ''train'' False (PyInt 1) None = Inr (self, example_fs) \<and>
      image_paths self = [''/data/robotfashion_data_folder/train/images/a.jpg'',
                          ''/data/robotfashion_data_folder/train/images/b.jpg''] \<and>
      label_paths self = [''/data/robotfashion_data_folder/train/annotations/a.xml'',
                          ''/data/robotfashion_data_folder/train/annotations/b.xml'']"
    using C8_enumeration [OF e2 md ratio i2 a2 f2 g2, of None]
    by (auto simp: sort_example_names example_train_dirs os_path_join_def)
  ultimately show ?thesis
    by simp
qed

text \<open>
  The outcome of \<^verbatim>\<open>load_data\<close> in terms of the two listings it reads.
\<close>

lemma load_data_cases:
  "load_data fs d =
     (case listdir fs (os_path_join d ''images'') of
        None \<Rightarrow> Inl OSError
      | Some imgs \<Rightarrow>
          (case listdir fs (os_path_join d ''annotations'') of
             None \<Rightarrow> Inl OSError
           | Some annos \<Rightarrow>
               if length (filter (\<lambda>f. isfile fs (os_path_join (os_path_join d ''images'') f))
                    imgs)
                  \<noteq> length (filter
                      (\<lambda>f. isfile fs (os_path_join (os_path_join d ''annotations'') f)) annos)
               then Inl (ValueError ''length of images and labels doesn't match'')
               else Inr
                 (map (os_path_join (os_path_join d ''images''))
                    (sort (filter
                       (\<lambda>f. isfile fs (os_path_join (os_path_join d ''images'') f)) imgs)),
                  map (os_path_join (os_path_join d ''annotations''))
                    (sort (filter
                       (\<lambda>f. isfile fs (os_path_join (os_path_join d ''annotations'') f))
                       annos)))))"
  by (simp add: load_data_def Let_def list_files_def filter_sort split: option.splits)

lemma init_val_mode:
  "RobotFashion_init chk dl fs wp ''val'' dlm ratio tf =
     (case ensure_dataset chk dl fs wp dlm of
        Inl e \<Rightarrow> Inl e
      | Inr fs' \<Rightarrow>
          if num_le_zero ratio \<or> num_gt_one ratio then Inl bad_subset_ratio
          else
            (case load_val_data fs' wp of
               Inl e \<Rightarrow> Inl e
             | Inr (ips, lps) \<Rightarrow>
                 Inr (\<lparr>dataset_root = wp, transform = tf, subset_ratio = ratio,
                       mode = ''val'', image_paths = ips, label_paths = lps\<rparr>, fs')))"
  by (simp add: RobotFashion_init_def modes_def train_mode_def val_mode_def test_mode_def
        split: sum.splits)

text \<open>
  Claim C10: the folder names declared for the integrity check are exactly train, val and
  test, and they are what the constructor hands to the check. Construction in validation
  mode loads with \<^verbatim>\<open>load_val_data\<close>, which is \<^verbatim>\<open>load_data\<close> on the folder named validation
  under the data folder; what \<^verbatim>\<open>load_data\<close> returns is decided by the listings of the
  \<open>images\<close> and \<open>annotations\<close> folders inside it. The name validation is not among the
  declared names, and under no data folder is the directory that is read one of the
  declared folders.
\<close>

theorem C10_validation_folder_not_checked:
  "set (map fst get_folders) = {''train'', ''val'', ''test''} \<and>
   ensure_dataset chk dl fs wp False =
     (if chk fs (get_root_data_folder wp) get_folders get_dataset_name then Inr fs
      else Inl (ValueError (''cannot find (valid) robotfashion data.''
             @ '' Set download_if_missing=True to download dataset''))) \<and>
   val_mode = ''val'' \<and>
   RobotFashion_init chk dl fs wp ''val'' dlm ratio tf =
     (case ensure_dataset chk dl fs wp dlm of
        Inl e \<Rightarrow> Inl e
      | Inr fs' \<Rightarrow>
          if num_le_zero ratio \<or> num_gt_one ratio then Inl bad_subset_ratio
          else
            (case load_val_data fs' wp of
               Inl e \<Rightarrow> Inl e
             | Inr (ips, lps) \<Rightarrow>
                 Inr (\<lparr>dataset_root = wp, transform = tf, subset_ratio = ratio,
                       mode = ''val'', image_paths = ips, label_paths = lps\<rparr>, fs'))) \<and>
   load_val_data fs wp =
     (case listdir fs
             (os_path_join (os_path_join (get_root_data_folder wp) ''validation'')
                ''images'') of
        None \<Rightarrow> Inl OSError
      | Some imgs \<Rightarrow>
          (case listdir fs
                  (os_path_join (os_path_join (get_root_data_folder wp) ''validation'')
                     ''annotations'') of
             None \<Rightarrow> Inl OSError
           | Some annos \<Rightarrow>
               if length (filter
                    (\<lambda>f. isfile fs
                       (os_path_join
                          (os_path_join (os_path_join (get_root_data_folder wp) ''validation'')
                             ''images'') f)) imgs)
                  \<noteq> length (filter
                    (\<lambda>f. isfile fs
                       (os_path_join
                          (os_path_join (os_path_join (get_root_data_folder wp) ''validation'')
                             ''annotations'') f)) annos)
               then Inl (ValueError ''length of images and labels doesn't match'')
               else Inr
                 (map (os_path_join
                         (os_path_join (os_path_join (get_root_data_folder wp) ''validation'')
                            ''images''))
                    (sort (filter
                       (\<lambda>f. isfile fs
                          (os_path_join
                             (os_path_join
                                (os_path_join (get_root_data_folder wp) ''validation'')
                                ''images'') f)) imgs)),
                  map (os_path_join
                         (os_path_join (os_path_join (get_root_data_folder wp) ''validation'')
                            ''annotations''))
                    (sort (filter
                       (\<lambda>f. isfile fs
                          (os_path_join
                             (os_path_join
                                (os_path_join (get_root_data_folder wp) ''validation'')
                                ''annotations'') f)) annos))))) \<and>
   ''validation'' \<notin> set (map fst get_folders) \<and>
   os_path_join (get_root_data_folder wp) ''validation''
     \<notin> set (map (\<lambda>(name, digest). os_path_join (get_root_data_folder wp) name) get_folders)"
proof -
  have a: "set (map fst get_folders) = {''train'', ''val'', ''test''}"
    by (auto simp: get_folders_def)
  have b: "ensure_dataset chk dl fs wp False =
      (if chk fs (get_root_data_folder wp) get_folders get_dataset_name then Inr fs
       else Inl (ValueError (''cannot find (valid) robotfashion data.''
              @ '' Set download_if_missing=True to download dataset'')))"
    by (simp add: ensure_dataset_def get_dataset_name_def)
  have c: "load_val_data fs wp =
      load_data fs (os_path_join (get_root_data_folder wp) ''validation'')"
    by (simp add: load_val_data_def val_data_dir_def val_folder_name_def)
  note d = load_data_cases [of fs "os_path_join (get_root_data_folder wp) ''validation''",
      folded c]
  have e: "''validation'' \<notin> set (map fst get_folders)"
    by (simp add: get_folders_def)
  have f: "os_path_join (get_root_data_folder wp) ''validation''
      \<notin> set (map (\<lambda>(name, digest). os_path_join (get_root_data_folder wp) name)
            get_folders)"
    by (auto simp: get_folders_def os_path_join_relative)
  have g: "val_mode = ''val''"
    by (simp add: val_mode_def)
  show ?thesis
    by (intro conjI a b d e f g init_val_mode)
qed

theorem C10_validation_folder_witness:
  "load_val_data example_fs ''/data'' =
     Inr ([''/data/robotfashion_data_folder/validation/images/v.jpg''],
          [''/data/robotfashion_data_folder/validation/annotations/v.xml'']) \<and>
   load_val_data mismatch_fs ''/nowhere'' = Inl OSError"
proof -
  have dirs: "os_path_join (os_path_join (get_root_data_folder ''/data'') ''validation'')
        ''images'' = ''/data/robotfashion_data_folder/validation/images''"
      "os_path_join (os_path_join (get_root_data_folder ''/data'') ''validation'')
        ''annotations'' = ''/data/robotfashion_data_folder/validation/annotations''"
    by (simp_all add: init_defs)
  have l1: "listdir example_fs ''/data/robotfashion_data_folder/validation/images''
      = Some [''v.jpg'']"
    by (simp add: example_fs_def)
  have l2: "listdir example_fs ''/data/robotfashion_data_folder/validation/annotations''
      = Some [''v.xml'']"
    by (simp add: example_fs_def)
  have f1: "isfile example_fs
      (os_path_join ''/data/robotfashion_data_folder/validation/images'' ''v.jpg'')"
    by (simp add: example_fs_def os_path_join_def)
  have f2: "isfile example_fs
      (os_path_join ''/data/robotfashion_data_folder/validation/annotations'' ''v.xml'')"
    by (simp add: example_fs_def os_path_join_def)
  have l3: "listdir mismatch_fs
      (os_path_join (os_path_join (get_root_data_folder ''/nowhere'') ''validation'')
         ''images'') = None"
    by (simp add: init_defs mismatch_fs_def example_fs_def)
  have v1: "load_val_data example_fs ''/data'' =
      Inr ([''/data/robotfashion_data_folder/validation/images/v.jpg''],
           [''/data/robotfashion_data_folder/validation/annotations/v.xml''])"
    using C10_validation_folder_not_checked [where fs = example_fs and wp = "''/data''"]
    by (simp add: dirs l1 l2 f1 f2) (simp add: os_path_join_def)
  have v2: "load_val_data mismatch_fs ''/nowhere'' = Inl OSError"
    using C10_validation_folder_not_checked [where fs = mismatch_fs and wp = "''/nowhere''"]
    by (simp only: l3 option.case)
  show ?thesis
    using v1 v2 by simp
qed

section \<open>The reported length\<close>

lemma len_float:
  assumes "subset_ratio self = PyFloat (Finite f)"
    and "int (length (image_paths self)) \<le> 2 ^ 53"
    and "round_double (f * of_int (int (length (image_paths self)))) = Finite r"
    and "0 \<le> r"
  shows "len self = Inr \<lfloor>r\<rfloor>"
  using assms by (simp add: len_def float_of_int_exact trunc_nonneg)

lemma len_one:
  assumes r: "subset_ratio self = PyFloat (Finite 1)"
    and n: "int (length (image_paths self)) < 2 ^ 53"
  shows "len self = Inr (int (length (image_paths self)))"
proof -
  let ?n = "int (length (image_paths self))"
  have n': "?n \<le> 2 ^ 53"
    using n by simp
  have "round_double (of_int ?n) = Finite (of_int ?n)"
    by (rule round_double_of_int) (use n in simp_all)
  then have "round_double (1 * of_int ?n) = Finite (of_int ?n)"
    by (simp only: mult_1)
  then have "len self = Inr \<lfloor>(of_int ?n :: rat)\<rfloor>"
    by (rule len_float [OF r n']) simp
  then show ?thesis by simp
qed

lemma len_half:
  assumes r: "subset_ratio self = PyFloat (Finite (1 / 2))"
    and n: "int (length (image_paths self)) < 2 ^ 53"
  shows "len self = Inr (int (length (image_paths self)) div 2)"
proof -
  let ?n = "int (length (image_paths self))"
  have n': "?n \<le> 2 ^ 53"
    using n by simp
  have "round_double (1 / 2 * of_int ?n) = Finite (of_int ?n / 2)"
    by (rule round_double_half) (use n in simp_all)
  then have "len self = Inr \<lfloor>(of_int ?n / 2 :: rat)\<rfloor>"
    by (rule len_float [OF r n']) simp
  moreover have "\<lfloor>(of_int ?n / 2 :: rat)\<rfloor> = ?n div 2"
    using floor_divide_of_int_eq [of ?n 2, where ?'a = rat] by simp
  ultimately show ?thesis by simp
qed

lemma len_int: "subset_ratio self = PyInt k \<Longrightarrow> len self = Inr (k * int (length (image_paths self)))"
  by (simp add: len_def)

lemma len_rounded:
  assumes r: "subset_ratio self = PyFloat (Finite f)"
    and f: "0 < f" "f \<le> 1"
    and n: "int (length (image_paths self)) < 2 ^ 53"
  shows "\<exists>q. round_double (f * of_nat (length (image_paths self))) = Finite q \<and>
    len self = Inr \<lfloor>q\<rfloor> \<and>
    of_int \<lfloor>f * of_nat (length (image_paths self))\<rfloor> \<le> q \<and>
    q \<le> of_int \<lceil>f * of_nat (length (image_paths self))\<rceil>"
proof (cases "length (image_paths self) = 0")
  case True
  have n': "int (length (image_paths self)) \<le> 2 ^ 53"
    using n by simp
  have rd: "round_double (f * of_int (int (length (image_paths self)))) = Finite 0"
    by (simp add: True round_double_def fp_round_def)
  have "len self = Inr \<lfloor>0::rat\<rfloor>"
    by (rule len_float [OF r n' rd]) simp
  then show ?thesis
    using rd by (simp add: True)
next
  case False
  let ?x = "f * of_int (int (length (image_paths self)))"
  have n': "int (length (image_paths self)) \<le> 2 ^ 53"
    using n by simp
  have pos: "0 < ?x"
    using f False by simp
  have "?x \<le> 1 * of_int (int (length (image_paths self)))"
    using f by (intro mult_right_mono) simp_all
  also have "\<dots> < of_int (2 ^ 53)"
    using n by (simp only: mult_1 of_int_less_iff)
  finally have less: "?x < 2 ^ 53"
    by simp
  obtain q where q: "round_double ?x = Finite q" "of_int \<lfloor>?x\<rfloor> \<le> q" "q \<le> of_int \<lceil>?x\<rceil>"
    using round_double_bracket [OF pos less] by blast
  have "0 \<le> \<lfloor>?x\<rfloor>"
    using pos by simp
  then have "(0::rat) \<le> of_int \<lfloor>?x\<rfloor>"
    by (simp only: of_int_0_le_iff)
  then have q0: "0 \<le> q"
    using q(2) by (rule order_trans)
  have "len self = Inr \<lfloor>q\<rfloor>"
    using r n' q(1) q0 by (rule len_float)
  then show ?thesis
    using q by auto
qed

lemma len_three_accessor: "len three_accessor = Inr 1"
proof -
  have n: "length (image_paths three_accessor) = 3"
    by (simp add: three_accessor_def)
  have n53: "int (length (image_paths three_accessor)) \<le> 2 ^ 53"
    by (simp add: n)
  have r: "subset_ratio three_accessor = PyFloat (Finite double_third)"
    by (simp add: three_accessor_def)
  have rd: "round_double (double_third * of_int (int (length (image_paths three_accessor))))
      = Finite 1"
    using double_third_times_3 by (simp add: n double_third_def)
  have "len three_accessor = Inr \<lfloor>1::rat\<rfloor>"
    by (rule len_float [OF r n53 rd]) simp
  then show ?thesis by simp
qed

lemma floor_double_third_times_3: "\<lfloor>double_third * 3\<rfloor> = 0"
  unfolding double_third_def by (rule floor_unique) simp_all

lemma ceiling_double_third_times_3: "\<lceil>double_third * 3\<rceil> = 1"
  unfolding double_third_def by (rule ceiling_unique) simp_all

text \<open>
  The reported length never exceeds the number of pairs.
\<close>

lemma reported_length_le:
  assumes init: "RobotFashion_init chk dl fs wp md dlm ratio tf = Inr (self, fs')"
    and n: "int (length (image_paths self)) < 2 ^ 53"
    and k: "len self = Inr k"
  shows "k \<le> int (length (image_paths self))"
proof (cases ratio)
  case (PyInt j)
  have "\<not> num_le_zero ratio" "\<not> num_gt_one ratio"
    by (rule init_InrD(3) [OF init], rule init_InrD(4) [OF init])
  then have "j = 1"
    using PyInt by simp
  then show ?thesis
    using k len_int [of self 1] init_InrD(7) [OF init] PyInt by simp
next
  case (PyFloat x)
  have valid: "\<not> num_le_zero ratio" "\<not> num_gt_one ratio"
    by (rule init_InrD(3) [OF init], rule init_InrD(4) [OF init])
  have r: "subset_ratio self = ratio"
    by (rule init_InrD(7) [OF init])
  show ?thesis
  proof (cases x)
    case (Finite f)
    have f: "0 < f" "f \<le> 1"
      using valid PyFloat Finite by simp_all
    have sr: "subset_ratio self = PyFloat (Finite f)"
      using r PyFloat Finite by simp
    obtain q :: rat where q: "len self = Inr \<lfloor>q\<rfloor>"
        "q \<le> of_int \<lceil>f * of_nat (length (image_paths self))\<rceil>"
      using len_rounded [OF sr f n] by blast
    have "f * of_nat (length (image_paths self)) \<le> 1 * of_nat (length (image_paths self))"
      using f by (intro mult_right_mono) simp_all
    then have "\<lceil>f * of_nat (length (image_paths self))\<rceil> \<le> int (length (image_paths self))"
      by (simp add: ceiling_le_iff)
    moreover have "\<lfloor>q\<rfloor> \<le> \<lceil>f * of_nat (length (image_paths self))\<rceil>"
      using q(2) by (simp add: floor_le_iff)
    ultimately show ?thesis
      using q(1) k by simp
  next
    case PosInf
    then show ?thesis using valid PyFloat by simp
  next
    case NegInf
    then show ?thesis using valid PyFloat by simp
  next
    case NaN
    have "subset_ratio self = PyFloat NaN"
      using r PyFloat NaN by simp
    then have "isl (len self)"
      by (simp add: len_def split: sum.splits)
    then show ?thesis
      using k by simp
  qed
qed

text \<open>
  Claim C5, as stated (the reported length is the floor of \<open>f * n\<close>), is false: the length
  is the truncation of the product as a double, and rounding the product can reach the
  next integer. For the float \<^verbatim>\<open>0.3333333333333333\<close> (the double nearest to one third, just
  below it) and three examples, the product \<open>0.99999999999999994\<close> lies halfway between two
  doubles and is rounded to \<open>1.0\<close>: the reported length is 1, the floor of the product is
  0.
\<close>

theorem C5_length_of_third_of_three:
  "RobotFashion_init accept_check no_download three_fs ''/data'' ''train'' False
     (PyFloat (Finite double_third)) None = Inr (three_accessor, three_fs) \<and>
   0 < double_third \<and> double_third \<le> 1 \<and>
   length (image_paths three_accessor) = 3 \<and>
   \<lfloor>double_third * 3\<rfloor> = 0 \<and>
   len three_accessor = Inr 1"
  using three_init len_three_accessor floor_double_third_times_3
  by (simp add: three_accessor_def double_third_def)

text \<open>
  Claim C5, amended: for a constructed accessor over \<open>n\<close> matched pairs (\<open>n\<close> below
  \<open>2 ^ 53\<close>), the reported length is \<open>n\<close> for the subset ratio 1 (integer or float) and
  the floor of \<open>n / 2\<close> for the ratio 0.5; for every float ratio \<open>f\<close> (which construction
  has checked to be in \<open>(0, 1]\<close>) it is the floor of the product \<open>f * n\<close> rounded to a
  double, and that rounded product lies between the floor and the ceiling of \<open>f * n\<close>.
\<close>

theorem C5_reported_length:
  assumes init: "RobotFashion_init chk dl fs wp md dlm ratio tf = Inr (self, fs')"
    and n: "n = length (image_paths self)" "int n < 2 ^ 53"
  shows "(ratio = PyInt 1 \<or> ratio = PyFloat (Finite 1) \<longrightarrow> len self = Inr (int n)) \<and>
    (ratio = PyFloat (Finite (1 / 2)) \<longrightarrow> len self = Inr (int n div 2)) \<and>
    (\<forall>f. ratio = PyFloat (Finite f) \<longrightarrow>
       0 < f \<and> f \<le> 1 \<and>
       (\<exists>q. round_double (f * of_nat n) = Finite q \<and> len self = Inr \<lfloor>q\<rfloor> \<and>
            of_int \<lfloor>f * of_nat n\<rfloor> \<le> q \<and> q \<le> of_int \<lceil>f * of_nat n\<rceil>))"
proof -
  have r: "subset_ratio self = ratio"
    by (rule init_InrD(7) [OF init])
  have valid: "\<not> num_le_zero ratio" "\<not> num_gt_one ratio"
    by (rule init_InrD(3) [OF init], rule init_InrD(4) [OF init])
  have n': "int (length (image_paths self)) < 2 ^ 53"
    using n by simp
  have "len self = Inr (int n)" if "ratio = PyInt 1"
    using len_int [of self 1] r that n by simp
  moreover have "len self = Inr (int n)" if "ratio = PyFloat (Finite 1)"
    using len_one [OF _ n'] r that n by simp
  moreover have "len self = Inr (int n div 2)" if "ratio = PyFloat (Finite (1 / 2))"
    using len_half [OF _ n'] r that n by simp
  moreover have "0 < f \<and> f \<le> 1 \<and>
      (\<exists>q. round_double (f * of_nat n) = Finite q \<and> len self = Inr \<lfloor>q\<rfloor> \<and>
           of_int \<lfloor>f * of_nat n\<rfloor> \<le> q \<and> q \<le> of_int \<lceil>f * of_nat n\<rceil>)"
    if "ratio = PyFloat (Finite f)" for f
  proof -
    have f: "0 < f" "f \<le> 1"
      using valid that by simp_all
    have "subset_ratio self = PyFloat (Finite f)"
      using r that by simp
    then show ?thesis
      using len_rounded [OF _ f n'] f n by simp
  qed
  ultimately show ?thesis
    by blast
qed

theorem C5_reported_length_witness:
  "len (train_accessor (PyInt 1)) = Inr 2 \<and>
   len (train_accessor (PyFloat (Finite (1 / 2)))) = Inr 1 \<and>
   (\<exists>k. len three_accessor = Inr k \<and> 0 \<le> k \<and> k \<le> 1)"
proof -
  have n2: "\<And>r. (2::nat) = length (image_paths (train_accessor r))"
    by (simp add: train_accessor_def)
  have small2: "int (2::nat) < 2 ^ 53"
    by simp
  have i1: "RobotFashion_init accept_check no_download example_fs ''/data'' ''train'' False
      (PyInt 1) None = Inr (train_accessor (PyInt 1), example_fs)"
    by (rule example_train_init) simp_all
  have i2: "RobotFashion_init accept_check no_download example_fs ''/data'' ''train'' False
      (PyFloat (Finite (1 / 2))) None
      = Inr (train_accessor (PyFloat (Finite (1 / 2))), example_fs)"
    by (rule example_train_init) simp_all
  have n3: "(3::nat) = length (image_paths three_accessor)"
    by (simp add: three_accessor_def)
  have small3: "int (3::nat) < 2 ^ 53"
    by simp
  have "\<forall>f. PyFloat (Finite double_third) = PyFloat (Finite f) \<longrightarrow>
      0 < f \<and> f \<le> 1 \<and>
      (\<exists>q. round_double (f * of_nat 3) = Finite q \<and> len three_accessor = Inr \<lfloor>q\<rfloor> \<and>
           of_int \<lfloor>f * of_nat 3\<rfloor> \<le> q \<and> q \<le> of_int \<lceil>f * of_nat 3\<rceil>)"
    by (rule C5_reported_length [OF three_init n3 small3, THEN conjunct2, THEN conjunct2])
  then have "\<exists>q::rat. len three_accessor = Inr \<lfloor>q\<rfloor> \<and>
      of_int \<lfloor>double_third * of_nat 3\<rfloor> \<le> q \<and> q \<le> of_int \<lceil>double_third * of_nat 3\<rceil>"
    by auto
  then obtain q :: rat where q: "len three_accessor = Inr \<lfloor>q\<rfloor>"
      "of_int \<lfloor>double_third * of_nat 3\<rfloor> \<le> q"
      "q \<le> of_int \<lceil>double_third * of_nat 3\<rceil>"
    by (elim exE conjE)
  have "0 \<le> \<lfloor>q\<rfloor>"
    using q(2) floor_double_third_times_3 by (simp add: le_floor_iff)
  moreover have "\<lfloor>q\<rfloor> \<le> 1"
    using q(3) ceiling_double_third_times_3 by (simp add: floor_le_iff)
  ultimately have "\<exists>k. len three_accessor = Inr k \<and> 0 \<le> k \<and> k \<le> 1"
    using q(1) by blast
  then show ?thesis
    using C5_reported_length [OF i1 n2 small2] C5_reported_length [OF i2 n2 small2]
    by simp
qed

section \<open>Retrieval beyond the reported length\<close>

lemma len_train_half: "len (train_accessor (PyFloat (Finite (1 / 2)))) = Inr 1"
proof -
  have "len (train_accessor (PyFloat (Finite (1 / 2)))) =
      Inr (int (length (image_paths (train_accessor (PyFloat (Finite (1 / 2)))))) div 2)"
    by (rule len_half) (simp_all add: train_accessor_def)
  then show ?thesis
    by (simp add: train_accessor_def)
qed

lemma unopened_train_init:
  "RobotFashion_init accept_check no_download unopened_fs ''/data'' ''train'' False
     (PyFloat (Finite (1 / 2))) None
     = Inr (train_accessor (PyFloat (Finite (1 / 2))), unopened_fs)"
  by (simp add: init_defs accept_check_def unopened_fs_def example_fs_def train_accessor_def)

text \<open>
  Claim C9, as stated (for a subset ratio below 1, retrieval succeeds at every index from
  the reported length up to the number of pairs), is false: retrieval opens the image and
  parses the annotation of that index, and either can raise. On a constructed accessor
  with ratio 0.5 over two pairs (reported length 1) whose second image cannot be opened,
  retrieval at index 1 raises \<^verbatim>\<open>OSError\<close>.
\<close>

theorem C9_unopened_image_raises:
  "RobotFashion_init accept_check no_download unopened_fs ''/data'' ''train'' False
     (PyFloat (Finite (1 / 2))) None
     = Inr (train_accessor (PyFloat (Finite (1 / 2))), unopened_fs) \<and>
   length (image_paths (train_accessor (PyFloat (Finite (1 / 2))))) = 2 \<and>
   len (train_accessor (PyFloat (Finite (1 / 2)))) = Inr 1 \<and>
   getitem unopened_fs (train_accessor (PyFloat (Finite (1 / 2)))) 1 = Inl OSError"
proof -
  have "getitem unopened_fs (train_accessor (PyFloat (Finite (1 / 2)))) 1 = Inl OSError"
    by (simp add: getitem_def py_index_def load_image_def train_accessor_def unopened_fs_def
          example_fs_def)
  then show ?thesis
    using unopened_train_init len_train_half by (simp add: train_accessor_def)
qed

text \<open>
  Claim C9, amended: retrieval does not look at the reported length. For a constructed
  accessor, whatever its subset ratio, every index \<open>i\<close> from 0 up to the number \<open>n\<close> of
  pairs (so also every \<open>i\<close> from the reported length on) whose \<open>i\<close>-th image opens and whose
  \<open>i\<close>-th annotation file is read without error returns the pair made of that image (after
  the transform) and that label; the path lists are the whole enumeration of the split. In
  the example the ratio is 0.5, the reported length of the two training examples is 1, and
  index 1 is retrieved.
\<close>

theorem C9_retrieval_ignores_reported_length:
  assumes init: "RobotFashion_init chk dl fs wp md dlm ratio tf = Inr (self, fs')"
    and i: "0 \<le> i" "i < int (length (image_paths self))"
    and img: "load_image fs' (image_paths self ! nat i) = Inr img"
    and lab: "load_label fs' (label_paths self ! nat i) = Inr lab"
  shows "getitem fs' self i = Inr (case tf of None \<Rightarrow> img | Some f \<Rightarrow> f img, lab) \<and>
    load_data fs' (if md = train_mode then train_data_dir wp else val_data_dir wp)
      = Inr (image_paths self, label_paths self)"
  using getitem_in_range [OF i init_lengths [OF init] img lab]
    init_InrD(5) [OF init] init_InrD(6) [OF init]
  by simp

theorem C9_retrieval_witness:
  "len (train_accessor (PyFloat (Finite (1 / 2)))) = Inr 1 \<and>
   getitem example_fs (train_accessor (PyFloat (Finite (1 / 2)))) 1 =
     Inr (2, \<lparr>boxes = [[Finite 1, Finite 2, Finite 3, Finite 4]], labels = [5]\<rparr>)"
proof -
  let ?self = "train_accessor (PyFloat (Finite (1 / 2)))"
  have init: "RobotFashion_init accept_check no_download example_fs ''/data'' ''train'' False
      (PyFloat (Finite (1 / 2))) None = Inr (?self, example_fs)"
    by (rule example_train_init) simp_all
  have i: "(0::int) \<le> 1" "1 < int (length (image_paths ?self))"
    by (simp_all add: train_accessor_def)
  have img: "load_image example_fs (image_paths ?self ! nat 1) = Inr 2"
    by (simp add: load_image_def example_fs_def train_accessor_def)
  have xml: "xml_files example_fs (label_paths ?self ! nat 1) = Some (XmlDoc vest_doc)"
    by (simp add: example_fs_def train_accessor_def)
  have small: "list_all (\<lambda>v. v \<le> 2 ^ 24) [1, 2, 3, 4 :: int]"
    by simp
  have lab: "load_label example_fs (label_paths ?self ! nat 1) =
      Inr \<lparr>boxes = [[Finite 1, Finite 2, Finite 3, Finite 4]], labels = [5]\<rparr>"
    unfolding load_label_doc [OF xml]
    using label_of_well_formed [OF vest_doc_well_formed _ small] by simp
  show ?thesis
    using C9_retrieval_ignores_reported_length [OF init i img lab] len_train_half by simp
qed

end
